theory Spec2Isabelle
  imports Complex_Main
begin

unbundle bit_operations_syntax

section \<open>Data model\<close>

text \<open>
  The sprites of \<^verbatim>\<open>environment/abstractsprite.py\<close> and \<^verbatim>\<open>environment/sprite.py\<close>.
  Coordinates are numpy floats in the source; they are modelled as real numbers, so
  every statement below is about exact arithmetic. A numpy array of two floats is a
  pair, a matplotlib path or a numpy array of vertices is a list of pairs.
\<close>

type_synonym point = "real \<times> real"

definition padd :: "point \<Rightarrow> point \<Rightarrow> point" where
  "padd p q = (fst p + fst q, snd p + snd q)"

definition psub :: "point \<Rightarrow> point \<Rightarrow> point" where
  "psub p q = (fst p - fst q, snd p - snd q)"

text \<open>\<^verbatim>\<open>np.abs\<close> of a pair.\<close>

definition pabs :: "point \<Rightarrow> point" where
  "pabs p = (\<bar>fst p\<bar>, \<bar>snd p\<bar>)"

text \<open>\<^verbatim>\<open>np.linalg.norm\<close> of a pair.\<close>

definition pnorm :: "point \<Rightarrow> real" where
  "pnorm p = sqrt (fst p * fst p + snd p * snd p)"

text \<open>
  The shape of a sprite is a string in the source, a key of \<^verbatim>\<open>constants.SHAPES\<close>.
  The three kinds the engine dispatches on are constructors of their own; any other
  key is \<open>OtherShape\<close>, which every dispatch sends to its failing branch.
\<close>

datatype shape = Circle | Square | Triangle | OtherShape

text \<open>The four strings returned by \<^verbatim>\<open>get_motion_direction\<close>.\<close>

datatype direction = Up | Down | Right | Left

datatype error = TypeError | AttributeError | IndexError | ValueError | UnboundLocalError | SystemExit

text \<open>
  The fields set by \<^verbatim>\<open>AbstractSprite.__init__\<close>. The field \<^verbatim>\<open>prop\<close> (here \<open>propv\<close>) is \<^verbatim>\<open>None\<close> until
  \<^verbatim>\<open>_geometrical_properties\<close> stores a radius or a side.
\<close>

record sprite =
  position :: point
  shape :: shape
  angle :: real
  scale :: real
  color :: "real \<times> real \<times> real"
  velocity :: point
  propv :: "real option"
  centered_path :: "point list"

definition sx :: "sprite \<Rightarrow> real" where
  "sx s = fst (position s)"

definition sy :: "sprite \<Rightarrow> real" where
  "sy s = snd (position s)"

section \<open>Geometry model\<close>

text \<open>
  \<^verbatim>\<open>vertices\<close>: the centered path translated by the position.
\<close>

definition vertices :: "sprite \<Rightarrow> point list" where
  "vertices s = map (\<lambda>v. padd v (position s)) (centered_path s)"

text \<open>
  \<^verbatim>\<open>bounds\<close> is \<^verbatim>\<open>Polygon(self.vertices).bounds\<close>: the tuple
  \<^verbatim>\<open>(min x, min y, max x, max y)\<close> of the vertices. The paths of the shape table are
  polygons, hence never empty.
\<close>

type_synonym bounds = "real \<times> real \<times> real \<times> real"

definition bounds_of :: "point list \<Rightarrow> bounds" where
  "bounds_of vs = (Min (set (map fst vs)), Min (set (map snd vs)),
                   Max (set (map fst vs)), Max (set (map snd vs)))"

definition bounds :: "sprite \<Rightarrow> bounds" where
  "bounds s = bounds_of (vertices s)"

definition b0 :: "bounds \<Rightarrow> real" where "b0 b = fst b"
definition b1 :: "bounds \<Rightarrow> real" where "b1 b = fst (snd b)"
definition b2 :: "bounds \<Rightarrow> real" where "b2 b = fst (snd (snd b))"
definition b3 :: "bounds \<Rightarrow> real" where "b3 b = snd (snd (snd b))"

text \<open>
  \<^verbatim>\<open>offsets\<close>: the distances from the position to the lower-left and to the
  upper-right corner of the bounds.
\<close>

definition offsets :: "sprite \<Rightarrow> point \<times> point" where
  "offsets s =
     (pabs (psub (b0 (bounds s), b1 (bounds s)) (position s)),
      pabs (psub (b2 (bounds s), b3 (bounds s)) (position s)))"

text \<open>\<^verbatim>\<open>np.clip(a, lo, hi)\<close> is \<^verbatim>\<open>minimum(hi, maximum(a, lo))\<close>, componentwise.\<close>

definition clip :: "point \<Rightarrow> point \<Rightarrow> point \<Rightarrow> point" where
  "clip p lo hi = (min (fst hi) (max (fst p) (fst lo)), min (snd hi) (max (snd p) (snd lo)))"

text \<open>
  The last step of \<^verbatim>\<open>Sprite.move\<close>:
  \<^verbatim>\<open>if keep_in_frame: self._position = np.clip(self._position, 0.0 + bottom_left, 1.0 - top_right)\<close>.
\<close>

definition frame_clamp :: "bool \<Rightarrow> sprite \<Rightarrow> sprite" where
  "frame_clamp keep_in_frame s =
     (if keep_in_frame
      then (let (bottom_left, top_right) = offsets s
            in s\<lparr>position := clip (position s) (padd (0, 0) bottom_left) (psub (1, 1) top_right)\<rparr>)
      else s)"

section \<open>Construction and setters\<close>

text \<open>
  \<^verbatim>\<open>Affine2D().scale(k)\<close> and \<^verbatim>\<open>Affine2D().rotate_deg(a)\<close> of matplotlib, applied to one
  vertex.
\<close>

definition scale_pt :: "real \<Rightarrow> point \<Rightarrow> point" where
  "scale_pt k p = (k * fst p, k * snd p)"

definition rotate_deg :: "real \<Rightarrow> point \<Rightarrow> point" where
  "rotate_deg a p =
     (let t = a * pi / 180
      in (cos t * fst p - sin t * snd p, sin t * fst p + cos t * snd p))"

text \<open>
  \<^verbatim>\<open>_reset_centered_path\<close>. The table \<^verbatim>\<open>constants.SHAPES\<close> of canonical vertex sets is
  not among the sources, so it is the parameter \<open>SHAPES\<close>. The transform
  \<^verbatim>\<open>scale(self._scale) + rotate_deg(self._angle)\<close> scales first and rotates second.
\<close>

definition reset_centered_path :: "(shape \<Rightarrow> point list) \<Rightarrow> sprite \<Rightarrow> sprite" where
  "reset_centered_path SHAPES s =
     s\<lparr>centered_path := map (\<lambda>v. rotate_deg (angle s) (scale_pt (scale s) v)) (SHAPES (shape s))\<rparr>"

text \<open>
  \<^verbatim>\<open>Polygon(vertices).area\<close> of shapely: the unsigned area of the ring, by the shoelace
  formula over the closed ring.
\<close>

fun shoelace :: "point list \<Rightarrow> real" where
  "shoelace (p # q # ps) = (fst p * snd q - fst q * snd p) + shoelace (q # ps)"
| "shoelace _ = 0"

definition polygon_area :: "point list \<Rightarrow> real" where
  "polygon_area vs = (case vs of [] \<Rightarrow> 0 | v # _ \<Rightarrow> \<bar>shoelace (vs @ [v])\<bar> / 2)"

text \<open>\<^verbatim>\<open>Sprite._geometrical_properties\<close>.\<close>

definition geometrical_properties :: "sprite \<Rightarrow> sprite" where
  "geometrical_properties s =
     (let area = polygon_area (vertices s);
          s1 = (if shape s = Circle then s\<lparr>propv := Some (sqrt (area / pi))\<rparr> else s)
      in if shape s1 = Square then s1\<lparr>propv := Some (sqrt area)\<rparr> else s1)"

text \<open>
  \<^verbatim>\<open>Sprite.__init__\<close>: the fields, \<^verbatim>\<open>prop = None\<close>, the centered path, then
  \<^verbatim>\<open>_geometrical_properties\<close>.
\<close>

definition Sprite ::
  "(shape \<Rightarrow> point list) \<Rightarrow> real \<Rightarrow> real \<Rightarrow> shape \<Rightarrow> real \<Rightarrow> real \<Rightarrow>
   real \<times> real \<times> real \<Rightarrow> point \<Rightarrow> sprite" where
  "Sprite SHAPES x y sh a sc col vel =
     geometrical_properties (reset_centered_path SHAPES
       \<lparr>position = (x, y), shape = sh, angle = a, scale = sc, color = col, velocity = vel,
        propv = None, centered_path = []\<rparr>)"

text \<open>The setters of \<^verbatim>\<open>shape\<close>, \<^verbatim>\<open>angle\<close> and \<^verbatim>\<open>scale\<close>.\<close>

definition shape_set :: "(shape \<Rightarrow> point list) \<Rightarrow> shape \<Rightarrow> sprite \<Rightarrow> sprite" where
  "shape_set SHAPES sh s = reset_centered_path SHAPES (s\<lparr>shape := sh\<rparr>)"

definition angle_set :: "real \<Rightarrow> sprite \<Rightarrow> sprite" where
  "angle_set a s =
     (s\<lparr>centered_path := map (rotate_deg (a - angle s)) (centered_path s)\<rparr>)\<lparr>angle := a\<rparr>"

definition scale_set :: "real \<Rightarrow> sprite \<Rightarrow> sprite" where
  "scale_set k s =
     (s\<lparr>centered_path := map (scale_pt (k - scale s)) (centered_path s)\<rparr>)\<lparr>scale := k\<rparr>"

text \<open>A sequence of assignments through the three setters.\<close>

datatype assignment = SetShape shape | SetAngle real | SetScale real

fun assign :: "(shape \<Rightarrow> point list) \<Rightarrow> assignment \<Rightarrow> sprite \<Rightarrow> sprite" where
  "assign SHAPES (SetShape sh) s = shape_set SHAPES sh s"
| "assign SHAPES (SetAngle a) s = angle_set a s"
| "assign SHAPES (SetScale k) s = scale_set k s"

definition assign_all :: "(shape \<Rightarrow> point list) \<Rightarrow> assignment list \<Rightarrow> sprite \<Rightarrow> sprite" where
  "assign_all SHAPES as s = fold (assign SHAPES) as s"

text \<open>
  What the vertices of a sprite are when they agree with its stored pose: the canonical
  vertex set scaled by \<open>scale\<close>, rotated by \<open>angle\<close> and translated by \<open>position\<close>.
\<close>

definition pose_vertices :: "(shape \<Rightarrow> point list) \<Rightarrow> sprite \<Rightarrow> point list" where
  "pose_vertices SHAPES s =
     map (\<lambda>v. padd (rotate_deg (angle s) (scale_pt (scale s) v)) (position s)) (SHAPES (shape s))"

text \<open>
  A shape table for the examples: the unit square, a triangle of area one with its apex
  up, and for the circle a polygon of twelve vertices on the unit circle. The vertex
  order is the one the handlers index by: the square from the upper-right corner, the
  triangle from its apex, both counter-clockwise.
\<close>

definition example_shapes :: "shape \<Rightarrow> point list" where
  "example_shapes sh =
     (case sh of
        Square \<Rightarrow> [(1 / 2, 1 / 2), (- (1 / 2), 1 / 2), (- (1 / 2), - (1 / 2)), (1 / 2, - (1 / 2))]
      | Triangle \<Rightarrow> [(0, 2 / 3), (- 1, - (1 / 3)), (1, - (1 / 3))]
      | _ \<Rightarrow> [(1, 0), (4 / 5, 3 / 5), (3 / 5, 4 / 5), (0, 1), (- (3 / 5), 4 / 5), (- (4 / 5), 3 / 5),
              (- 1, 0), (- (4 / 5), - (3 / 5)), (- (3 / 5), - (4 / 5)), (0, - 1),
              (3 / 5, - (4 / 5)), (4 / 5, - (3 / 5))])"

section \<open>Overlap predicates\<close>

text \<open>
  The predicates of \<^verbatim>\<open>environment/utils.py\<close>. A function that can raise returns a sum, with
  the error on the left. The radius or side handed to a predicate is the field
  \<^verbatim>\<open>prop\<close>, which may be \<^verbatim>\<open>None\<close>: arithmetic or a comparison with it raises
  \<^verbatim>\<open>TypeError\<close>.
\<close>

definition circle_circle :: "point \<Rightarrow> point \<Rightarrow> real option \<Rightarrow> real option \<Rightarrow> error + bool" where
  "circle_circle pos1 pos2 rad1 rad2 =
     (case (rad1, rad2) of
        (Some r1, Some r2) \<Rightarrow> Inr (pnorm (psub pos1 pos2) \<le> r1 + r2)
      | _ \<Rightarrow> Inl TypeError)"

definition square_circle :: "point \<Rightarrow> point \<Rightarrow> real option \<Rightarrow> real option \<Rightarrow> error + bool" where
  "square_circle cpos spos rad side =
     (case (rad, side) of
        (Some r, Some a) \<Rightarrow>
          (let dist = pabs (psub cpos spos)
           in if fst dist > a / 2 + r then Inr False
              else if snd dist > a / 2 + r then Inr False
              else if fst dist \<le> a / 2 \<or> snd dist \<le> a / 2 then Inr True
              else Inr (pnorm (psub dist (a / 2, a / 2)) \<le> r))
      | _ \<Rightarrow> Inl TypeError)"

text \<open>
  \<^verbatim>\<open>triangle_circle\<close>. The last part works on the three rows
  \<^verbatim>\<open>(k, lens, cvert)\<close>, one for each edge, and filters them twice.
\<close>

definition edge_rows :: "point \<Rightarrow> point \<Rightarrow> point \<Rightarrow> point \<Rightarrow> (real \<times> real \<times> point) list" where
  "edge_rows v0 v1 v2 cpos =
     map (\<lambda>(v, e). (fst (psub cpos v) * fst e + snd (psub cpos v) * snd e,
                      sqrt (fst e * fst e + snd e * snd e),
                      psub cpos v))
       [(v0, psub v1 v0), (v1, psub v2 v1), (v2, psub v0 v2)]"

definition circle_intersects_edge :: "point \<Rightarrow> point \<Rightarrow> point \<Rightarrow> point \<Rightarrow> real \<Rightarrow> bool" where
  "circle_intersects_edge v0 v1 v2 cpos r =
     (let k_positive = filter (\<lambda>(k, l, cv). k > 0) (edge_rows v0 v1 v2 cpos)
      in if k_positive = [] then False
         else (let half = filter (\<lambda>(k, l, cv). k / l < l) k_positive
               in if half = [] then False
                  else list_ex (\<lambda>(k, l, cv).
                         sqrt ((fst cv * fst cv + snd cv * snd cv) - (k / l) * (k / l)) \<le> r) half))"

definition center_in_triangle :: "point \<Rightarrow> point \<Rightarrow> point \<Rightarrow> point \<Rightarrow> bool" where
  "center_in_triangle v0 v1 v2 cpos =
     (let a = (fst (psub v1 v0) * fst (psub cpos v0), snd (psub v1 v0) * snd (psub cpos v0));
          b = (fst (psub v2 v1) * fst (psub cpos v1), snd (psub v2 v1) * snd (psub cpos v1));
          c = (fst (psub v0 v2) * fst (psub cpos v2), snd (psub v0 v2) * snd (psub cpos v2))
      in fst a \<ge> snd a \<and> fst b \<ge> snd b \<and> fst c \<ge> snd c)"

definition triangle_circle :: "point list \<Rightarrow> point \<Rightarrow> real option \<Rightarrow> error + bool" where
  "triangle_circle tvert cpos rad =
     (case tvert of
        [] \<Rightarrow> Inl IndexError
      | v0 # t1 \<Rightarrow>
         (case rad of
            None \<Rightarrow> Inl TypeError
          | Some r \<Rightarrow>
             if pnorm (psub v0 cpos) \<le> r then Inr True
             else (case t1 of
                [] \<Rightarrow> Inl IndexError
              | v1 # t2 \<Rightarrow>
                 if pnorm (psub v1 cpos) \<le> r then Inr True
                 else (case t2 of
                    [] \<Rightarrow> Inl IndexError
                  | v2 # t3 \<Rightarrow>
                     if pnorm (psub v2 cpos) \<le> r then Inr True
                     else if center_in_triangle v0 v1 v2 cpos then Inr True
                     else if t3 \<noteq> [] then Inl ValueError
                     else Inr (circle_intersects_edge v0 v1 v2 cpos r)))))"

text \<open>
  The region codes of the Cohen-Sutherland clipping, as bit sets:
  \<^verbatim>\<open>LEFT = 1\<close>, \<^verbatim>\<open>RIGHT = 2\<close>, \<^verbatim>\<open>BOTTOM = 4\<close>, \<^verbatim>\<open>TOP = 8\<close>.
\<close>

definition computeCode :: "real \<Rightarrow> real \<Rightarrow> bounds \<Rightarrow> nat" where
  "computeCode x y bnds =
     (let c = (if x < b0 bnds then 0 OR 1 else if x > b2 bnds then 0 OR 2 else 0)
      in if y < b1 bnds then c OR 4 else if y > b3 bnds then c OR 8 else c)"

text \<open>
  The loop of \<^verbatim>\<open>cohenSutherlandClip\<close>. It is a \<^verbatim>\<open>while True\<close> in the source; a run that
  never leaves it has the value \<open>None\<close>.
\<close>

definition clip_point :: "bounds \<Rightarrow> real \<Rightarrow> real \<Rightarrow> real \<Rightarrow> real \<Rightarrow> nat \<Rightarrow> point" where
  "clip_point bnds x1 y1 x2 y2 code_out =
     (if code_out AND 8 \<noteq> 0 then (x1 + (x2 - x1) * (b3 bnds - y1) / (y2 - y1), b3 bnds)
      else if code_out AND 4 \<noteq> 0 then (x1 + (x2 - x1) * (b1 bnds - y1) / (y2 - y1), b1 bnds)
      else if code_out AND 2 \<noteq> 0 then (b2 bnds, y1 + (y2 - y1) * (b2 bnds - x1) / (x2 - x1))
      else if code_out AND 1 \<noteq> 0 then (b0 bnds, y1 + (y2 - y1) * (b0 bnds - x1) / (x2 - x1))
      else (1, 1))"

partial_function (option) clip_loop ::
  "bounds \<Rightarrow> real \<Rightarrow> real \<Rightarrow> real \<Rightarrow> real \<Rightarrow> nat \<Rightarrow> nat \<Rightarrow> bool option" where
  "clip_loop bnds x1 y1 x2 y2 code1 code2 =
     (if code1 = 0 \<and> code2 = 0 then Some True
      else if code1 AND code2 \<noteq> 0 then Some False
      else if (if code1 \<noteq> 0 then code1 else code2) = code1
      then clip_loop bnds
             (fst (clip_point bnds x1 y1 x2 y2 code1)) (snd (clip_point bnds x1 y1 x2 y2 code1)) x2 y2
             (computeCode (fst (clip_point bnds x1 y1 x2 y2 code1))
                (snd (clip_point bnds x1 y1 x2 y2 code1)) bnds)
             code2
      else clip_loop bnds x1 y1
             (fst (clip_point bnds x1 y1 x2 y2 code2)) (snd (clip_point bnds x1 y1 x2 y2 code2))
             code1
             (computeCode (fst (clip_point bnds x1 y1 x2 y2 code2))
                (snd (clip_point bnds x1 y1 x2 y2 code2)) bnds))"

definition cohenSutherlandClip :: "real \<Rightarrow> real \<Rightarrow> real \<Rightarrow> real \<Rightarrow> bounds \<Rightarrow> bool option" where
  "cohenSutherlandClip x1 y1 x2 y2 bnds =
     clip_loop bnds x1 y1 x2 y2 (computeCode x1 y1 bnds) (computeCode x2 y2 bnds)"

text \<open>
  Outcomes of the stateful operations: \<open>None\<close> when the call does not return,
  \<open>Some (Inl e)\<close> when it raises, \<open>Some (Inr v)\<close> when it returns \<open>v\<close>.
\<close>

type_synonym 'a outcome = "(error + 'a) option"

definition triangle_square :: "point list \<Rightarrow> bounds \<Rightarrow> bool outcome" where
  "triangle_square tvert bnds =
     (case tvert of
        v0 # v1 # rest \<Rightarrow>
          (case cohenSutherlandClip (fst v0) (snd v0) (fst v1) (snd v1) bnds of
             None \<Rightarrow> None
           | Some True \<Rightarrow> Some (Inr True)
           | Some False \<Rightarrow>
              (case rest of
                 [] \<Rightarrow> Some (Inl IndexError)
               | v2 # _ \<Rightarrow>
                  (case cohenSutherlandClip (fst v0) (snd v0) (fst v2) (snd v2) bnds of
                     None \<Rightarrow> None
                   | Some True \<Rightarrow> Some (Inr True)
                   | Some False \<Rightarrow>
                      map_option Inr (cohenSutherlandClip (fst v1) (snd v1) (fst v2) (snd v2) bnds))))
      | _ \<Rightarrow> Some (Inl IndexError))"

text \<open>
  \<^verbatim>\<open>CheckTriWinding\<close> and \<^verbatim>\<open>TriTri2D\<close>. \<open>det3 a b c\<close> is the determinant of the rows
  \<^verbatim>\<open>(a, 1)\<close>, \<^verbatim>\<open>(b, 1)\<close>, \<^verbatim>\<open>(c, 1)\<close>. The assignment \<^verbatim>\<open>trisq[:,0:2] = np.array(tri)\<close>
  takes three rows as they are, broadcasts a single row to all three, and raises
  \<^verbatim>\<open>ValueError\<close> on any other number of rows.
\<close>

definition det3 :: "point \<Rightarrow> point \<Rightarrow> point \<Rightarrow> real" where
  "det3 a b c =
     fst a * (snd b - snd c) - snd a * (fst b - fst c) + (fst b * snd c - snd b * fst c)"

definition tri_rows :: "point list \<Rightarrow> (point \<times> point \<times> point) option" where
  "tri_rows tri = (case tri of [a, b, c] \<Rightarrow> Some (a, b, c) | [a] \<Rightarrow> Some (a, a, a) | _ \<Rightarrow> None)"

definition CheckTriWinding :: "point list \<Rightarrow> bool \<Rightarrow> error + point \<times> point \<times> point" where
  "CheckTriWinding tri allowReversed =
     (case tri_rows tri of
        Some (a, b, c) \<Rightarrow>
          if det3 a b c < 0
          then (if allowReversed then Inr (a, c, b) else Inl ValueError)
          else Inr (a, b, c)
      | None \<Rightarrow> Inl ValueError)"

definition chkEdge :: "point \<Rightarrow> point \<Rightarrow> point \<Rightarrow> bool" where
  "chkEdge e0 e1 q = (det3 e0 e1 q < 0)"

text \<open>The edges \<^verbatim>\<open>np.roll(t, i, axis=0)[:2,:]\<close> for \<^verbatim>\<open>i = 0, 1, 2\<close>.\<close>

definition rolled_edges :: "point \<times> point \<times> point \<Rightarrow> (point \<times> point) list" where
  "rolled_edges t = (case t of (r0, r1, r2) \<Rightarrow> [(r0, r1), (r2, r0), (r1, r2)])"

definition all_outside :: "point \<times> point \<Rightarrow> point \<times> point \<times> point \<Rightarrow> bool" where
  "all_outside e t =
     (case t of (q0, q1, q2) \<Rightarrow>
        chkEdge (fst e) (snd e) q0 \<and> chkEdge (fst e) (snd e) q1 \<and> chkEdge (fst e) (snd e) q2)"

definition TriTri2D :: "point list \<Rightarrow> point list \<Rightarrow> bool \<Rightarrow> error + bool" where
  "TriTri2D t1 t2 allowReversed =
     (case CheckTriWinding t1 allowReversed of
        Inl e \<Rightarrow> Inl e
      | Inr t1s \<Rightarrow>
         (case CheckTriWinding t2 allowReversed of
            Inl e \<Rightarrow> Inl e
          | Inr t2s \<Rightarrow>
             if list_ex (\<lambda>e. all_outside e t2s) (rolled_edges t1s) then Inr False
             else if list_ex (\<lambda>e. all_outside e t1s) (rolled_edges t2s) then Inr False
             else Inr True))"

text \<open>
  \<^verbatim>\<open>Polygon.intersects\<close> of shapely: the two closed regions share a point. The paths of
  the sprites are convex polygons, for which this is decided by the separating lines
  through the edges: the regions are disjoint exactly when all vertices of one polygon
  lie strictly on one side of an edge of the other. Over the real numbers two polygons
  in exact contact intersect; on the program's floats the outcome at exact contact is
  decided by the rounding of the coordinates, so the statements below rely on this test
  only where the polygons overlap or are apart by a margin.
\<close>

fun ring_edges :: "point \<Rightarrow> point list \<Rightarrow> (point \<times> point) list" where
  "ring_edges first [] = []"
| "ring_edges first [p] = [(p, first)]"
| "ring_edges first (p # q # ps) = (p, q) # ring_edges first (q # ps)"

definition polygon_edges :: "point list \<Rightarrow> (point \<times> point) list" where
  "polygon_edges vs = (case vs of [] \<Rightarrow> [] | v # _ \<Rightarrow> ring_edges v vs)"

definition separates :: "point \<times> point \<Rightarrow> point list \<Rightarrow> point list \<Rightarrow> bool" where
  "separates e ps qs =
     ((list_all (\<lambda>p. det3 (fst e) (snd e) p \<ge> 0) ps \<and> list_all (\<lambda>q. det3 (fst e) (snd e) q < 0) qs)
      \<or> (list_all (\<lambda>p. det3 (fst e) (snd e) p \<le> 0) ps \<and> list_all (\<lambda>q. det3 (fst e) (snd e) q > 0) qs))"

definition polygon_intersects :: "point list \<Rightarrow> point list \<Rightarrow> bool" where
  "polygon_intersects ps qs =
     (\<not> list_ex (\<lambda>e. separates e ps qs) (polygon_edges ps)
      \<and> \<not> list_ex (\<lambda>e. separates e qs ps) (polygon_edges qs))"

text \<open>\<^verbatim>\<open>Sprite.check_collision\<close>.\<close>

definition check_collision :: "sprite \<Rightarrow> sprite \<Rightarrow> bool" where
  "check_collision self other = polygon_intersects (vertices self) (vertices other)"

section \<open>Squares against squares\<close>

text \<open>\<^verbatim>\<open>AbstractSprite._square_square_overlap\<close>, the overlap resolver of two squares.\<close>

definition square_square_overlap :: "sprite \<Rightarrow> sprite \<Rightarrow> direction \<Rightarrow> sprite" where
  "square_square_overlap self other d =
     (case d of
        Down \<Rightarrow>
          if b3 (bounds other) \<ge> b1 (bounds self)
          then self\<lparr>position := (sx self, sy self + (b3 (bounds other) - b1 (bounds self) + 1 / 100000))\<rparr>
          else self
      | Up \<Rightarrow>
          if b3 (bounds self) \<ge> b1 (bounds other)
          then self\<lparr>position := (sx self, sy self - (b3 (bounds self) - b1 (bounds other) + 1 / 100000))\<rparr>
          else self
      | Right \<Rightarrow>
          if b2 (bounds self) \<ge> b0 (bounds other)
          then self\<lparr>position := (sx self - (b2 (bounds self) - b0 (bounds other) + 1 / 100000), sy self)\<rparr>
          else self
      | Left \<Rightarrow>
          if b2 (bounds other) \<ge> b0 (bounds self)
          then self\<lparr>position := (sx self + (b2 (bounds other) - b0 (bounds self) + 1 / 100000), sy self)\<rparr>
          else self)"

text \<open>\<^verbatim>\<open>AbstractSprite._handle_square_square\<close>, the collision snapper of two squares.\<close>

definition handle_square_square :: "sprite \<Rightarrow> sprite \<Rightarrow> direction \<Rightarrow> sprite" where
  "handle_square_square self other d =
     (case d of
        Down \<Rightarrow> self\<lparr>position := (sx self, sy self - (b1 (bounds self) - b3 (bounds other)))\<rparr>
      | Up \<Rightarrow> self\<lparr>position := (sx self, sy self + (b1 (bounds other) - b3 (bounds self)))\<rparr>
      | Right \<Rightarrow> self\<lparr>position := (sx self + (b0 (bounds other) - b2 (bounds self)), sy self)\<rparr>
      | Left \<Rightarrow> self\<lparr>position := (sx self - (b0 (bounds self) - b2 (bounds other)), sy self)\<rparr>)"

section \<open>Intersections of line strings\<close>

text \<open>
  \<^verbatim>\<open>LineString([a, b]).intersection(contour)\<close> of shapely, for a segment and a closed
  line string. Each edge of the contour meets the segment in nothing, in one point or,
  when they are collinear, in a stretch. The result is a \<^verbatim>\<open>Point\<close> when all that is found is
  one single point; otherwise it is empty, a \<^verbatim>\<open>MultiPoint\<close> or made of line strings, and
  reading \<^verbatim>\<open>.x\<close> or \<^verbatim>\<open>.y\<close> from it raises \<^verbatim>\<open>AttributeError\<close>.
\<close>

datatype piece = NoPiece | PointPiece point | SegPiece point point

datatype geometry = GEmpty | GPoint point | GOther

definition cross2 :: "point \<Rightarrow> point \<Rightarrow> real" where
  "cross2 u v = fst u * snd v - snd u * fst v"

definition dot2 :: "point \<Rightarrow> point \<Rightarrow> real" where
  "dot2 u v = fst u * fst v + snd u * snd v"

definition on_segment :: "point \<Rightarrow> point \<Rightarrow> point \<Rightarrow> bool" where
  "on_segment p c d =
     (if c = d then p = c
      else cross2 (psub p c) (psub d c) = 0 \<and> 0 \<le> dot2 (psub p c) (psub d c)
           \<and> dot2 (psub p c) (psub d c) \<le> dot2 (psub d c) (psub d c))"

definition along :: "point \<Rightarrow> point \<Rightarrow> real \<Rightarrow> point" where
  "along a r t = (fst a + t * fst r, snd a + t * snd r)"

definition seg_seg :: "point \<Rightarrow> point \<Rightarrow> point \<Rightarrow> point \<Rightarrow> piece" where
  "seg_seg a b c d =
     (let r = psub b a; s = psub d c; w = psub c a
      in if cross2 r s \<noteq> 0
         then (let t = cross2 w s / cross2 r s; u = cross2 w r / cross2 r s
               in if 0 \<le> t \<and> t \<le> 1 \<and> 0 \<le> u \<and> u \<le> 1 then PointPiece (along a r t) else NoPiece)
         else if a = b then (if on_segment a c d then PointPiece a else NoPiece)
         else if c = d then (if on_segment c a b then PointPiece c else NoPiece)
         else if cross2 w r \<noteq> 0 then NoPiece
         else (let t0 = dot2 w r / dot2 r r; t1 = t0 + dot2 s r / dot2 r r;
                   lo = max 0 (min t0 t1); hi = min 1 (max t0 t1)
               in if lo > hi then NoPiece
                  else if lo = hi then PointPiece (along a r lo)
                  else SegPiece (along a r lo) (along a r hi)))"

definition is_seg :: "piece \<Rightarrow> bool" where
  "is_seg pc = (case pc of SegPiece _ _ \<Rightarrow> True | _ \<Rightarrow> False)"

definition piece_points :: "piece list \<Rightarrow> point list" where
  "piece_points pcs = concat (map (\<lambda>pc. case pc of PointPiece p \<Rightarrow> [p] | _ \<Rightarrow> []) pcs)"

definition line_intersection :: "point \<Rightarrow> point \<Rightarrow> (point \<times> point) list \<Rightarrow> geometry" where
  "line_intersection a b edges =
     (let pcs = map (\<lambda>(c, d). seg_seg a b c d) edges
      in if list_ex is_seg pcs then GOther
         else (case remdups (piece_points pcs) of
                 [] \<Rightarrow> GEmpty
               | [p] \<Rightarrow> GPoint p
               | _ \<Rightarrow> GOther))"

text \<open>\<^verbatim>\<open>contours\<close>: the vertices closed into a ring, as its list of edges.\<close>

definition contours :: "sprite \<Rightarrow> (point \<times> point) list" where
  "contours s = polygon_edges (vertices s)"

definition gx :: "geometry \<Rightarrow> error + real" where
  "gx g = (case g of GPoint p \<Rightarrow> Inr (fst p) | _ \<Rightarrow> Inl AttributeError)"

definition gy :: "geometry \<Rightarrow> error + real" where
  "gy g = (case g of GPoint p \<Rightarrow> Inr (snd p) | _ \<Rightarrow> Inl AttributeError)"

section \<open>Circles against circles\<close>

text \<open>
  \<^verbatim>\<open>AbstractSprite._handle_circle_circle\<close>, the collision snapper of two circles. The two
  contact points are read without a \<^verbatim>\<open>try\<close>.
\<close>

definition handle_circle_circle :: "sprite \<Rightarrow> sprite \<Rightarrow> direction \<Rightarrow> error + sprite" where
  "handle_circle_circle self other d =
     (let p1 = line_intersection (position self) (position other) (contours self);
          p2 = line_intersection (position self) (position other) (contours other)
      in case d of
           Down \<Rightarrow> (case gy p1 of Inl e \<Rightarrow> Inl e | Inr y1 \<Rightarrow>
                     (case gy p2 of Inl e \<Rightarrow> Inl e | Inr y2 \<Rightarrow>
                        Inr (self\<lparr>position := (sx self, sy self - (y1 - y2))\<rparr>)))
         | Up \<Rightarrow> (case gy p2 of Inl e \<Rightarrow> Inl e | Inr y2 \<Rightarrow>
                   (case gy p1 of Inl e \<Rightarrow> Inl e | Inr y1 \<Rightarrow>
                      Inr (self\<lparr>position := (sx self, sy self + (y2 - y1))\<rparr>)))
         | Right \<Rightarrow> (case gx p2 of Inl e \<Rightarrow> Inl e | Inr x2 \<Rightarrow>
                      (case gx p1 of Inl e \<Rightarrow> Inl e | Inr x1 \<Rightarrow>
                         Inr (self\<lparr>position := (sx self + (x2 - x1), sy self)\<rparr>)))
         | Left \<Rightarrow> (case gx p1 of Inl e \<Rightarrow> Inl e | Inr x1 \<Rightarrow>
                     (case gx p2 of Inl e \<Rightarrow> Inl e | Inr x2 \<Rightarrow>
                        Inr (self\<lparr>position := (sx self - (x1 - x2), sy self)\<rparr>))))"

text \<open>\<^verbatim>\<open>AbstractSprite.circle_circle_distance\<close>.\<close>

definition circle_circle_distance :: "sprite \<Rightarrow> sprite \<Rightarrow> direction \<Rightarrow> error + real" where
  "circle_circle_distance self other d =
     (let p1 = line_intersection (position self) (position other) (contours self);
          p2 = line_intersection (position self) (position other) (contours other)
      in case d of
           Down \<Rightarrow> (case gy p1 of Inl e \<Rightarrow> Inl e | Inr y1 \<Rightarrow>
                     (case gy p2 of Inl e \<Rightarrow> Inl e | Inr y2 \<Rightarrow> Inr (y1 - y2)))
         | Up \<Rightarrow> (case gy p2 of Inl e \<Rightarrow> Inl e | Inr y2 \<Rightarrow>
                   (case gy p1 of Inl e \<Rightarrow> Inl e | Inr y1 \<Rightarrow> Inr (y2 - y1)))
         | Right \<Rightarrow> (case gx p2 of Inl e \<Rightarrow> Inl e | Inr x2 \<Rightarrow>
                      (case gx p1 of Inl e \<Rightarrow> Inl e | Inr x1 \<Rightarrow> Inr (x2 - x1)))
         | Left \<Rightarrow> (case gx p1 of Inl e \<Rightarrow> Inl e | Inr x1 \<Rightarrow>
                     (case gx p2 of Inl e \<Rightarrow> Inl e | Inr x2 \<Rightarrow> Inr (x1 - x2))))"

text \<open>\<^verbatim>\<open>AbstractSprite.square_square_distance\<close>.\<close>

definition square_square_distance :: "sprite \<Rightarrow> sprite \<Rightarrow> direction \<Rightarrow> real" where
  "square_square_distance self other d =
     (case d of
        Down \<Rightarrow> b1 (bounds self) - b3 (bounds other)
      | Up \<Rightarrow> b1 (bounds other) - b3 (bounds self)
      | Right \<Rightarrow> b0 (bounds other) - b2 (bounds self)
      | Left \<Rightarrow> b0 (bounds self) - b2 (bounds other))"

section \<open>Squares against circles\<close>

text \<open>
  \<^verbatim>\<open>AbstractSprite._square_circle_overlap\<close>, the overlap resolver of a square against a
  circle. Where an edge of the square is intersected with the circle, the assignment
  sits in \<^verbatim>\<open>try: ... except: pass\<close>: when the intersection is not a point nothing moves.
  The square is read through its vertices 0 to 3.
\<close>

definition move_x :: "sprite \<Rightarrow> real \<Rightarrow> sprite" where
  "move_x s dx = s\<lparr>position := (sx s + dx, sy s)\<rparr>"

definition move_y :: "sprite \<Rightarrow> real \<Rightarrow> sprite" where
  "move_y s dy = s\<lparr>position := (sx s, sy s + dy)\<rparr>"

definition try_point :: "geometry \<Rightarrow> sprite \<Rightarrow> (point \<Rightarrow> sprite) \<Rightarrow> sprite" where
  "try_point g s f = (case g of GPoint p \<Rightarrow> f p | _ \<Rightarrow> s)"

definition square_circle_overlap :: "sprite \<Rightarrow> sprite \<Rightarrow> direction \<Rightarrow> error + sprite" where
  "square_circle_overlap self other d =
     (case vertices self of
        v0 # v1 # v2 # v3 # _ \<Rightarrow>
         (let circle = contours other in
          case d of
            Down \<Rightarrow>
              if fst v3 < sx other
              then Inr (try_point (line_intersection v0 v3 circle) self (\<lambda>p. move_y self (snd p - snd v3)))
              else if fst v2 > sx other
              then Inr (try_point (line_intersection v1 v2 circle) self (\<lambda>p. move_y self (snd p - snd v2)))
              else (case propv other of
                      None \<Rightarrow> Inl TypeError
                    | Some r \<Rightarrow> Inr (move_y self ((sy other + r) - b1 (bounds self) + 1 / 100000)))
          | Up \<Rightarrow>
              if fst v1 > sx other
              then Inr (try_point (line_intersection v1 v2 circle) self (\<lambda>p. move_y self (- (snd v1 - snd p))))
              else if fst v0 < sx other
              then Inr (try_point (line_intersection v0 v3 circle) self (\<lambda>p. move_y self (- (snd v0 - snd p))))
              else (case propv other of
                      None \<Rightarrow> Inl TypeError
                    | Some r \<Rightarrow>
                       if b3 (bounds other) > sy other - r
                       then Inr (move_y self (- (b3 (bounds other) - (sy other - r) + 1 / 100000)))
                       else Inr self)
          | Right \<Rightarrow>
              if snd v0 < sy other
              then Inr (try_point (line_intersection v0 v1 circle) self (\<lambda>p. move_x self (- (fst v0 - fst p))))
              else if snd v3 > sy other
              then Inr (try_point (line_intersection v2 v3 circle) self (\<lambda>p. move_x self (- (fst v3 - fst p))))
              else (case propv other of
                      None \<Rightarrow> Inl TypeError
                    | Some r \<Rightarrow> Inr (move_x self (- (b2 (bounds self) - (sx other - r) + 1 / 100000))))
          | Left \<Rightarrow>
              if snd v1 < sy other
              then Inr (try_point (line_intersection v0 v1 circle) self (\<lambda>p. move_x self (fst p - fst v1)))
              else if snd v2 > sy other
              then Inr (try_point (line_intersection v2 v3 circle) self (\<lambda>p. move_x self (fst p - fst v2)))
              else (case propv other of
                      None \<Rightarrow> Inl TypeError
                    | Some r \<Rightarrow> Inr (move_x self ((sx other + r) - b0 (bounds self) + 1 / 100000))))
      | _ \<Rightarrow> Inl IndexError)"

section \<open>Dispatch on the pair of shapes\<close>

text \<open>
  \<^verbatim>\<open>handle_collision\<close>, \<^verbatim>\<open>resolve_overlapping\<close> and \<^verbatim>\<open>_get_distance\<close> choose a handler by
  the ordered pair of shapes and exit on any other pair. The handlers of the pairs that
  no statement below looks into are the fields of the parameter \<open>H\<close>, indexed by the
  pair; every statement holds for all of them.
\<close>

record handlers =
  snapper :: "shape \<Rightarrow> shape \<Rightarrow> sprite \<Rightarrow> sprite \<Rightarrow> direction \<Rightarrow> error + sprite"
  resolver :: "shape \<Rightarrow> shape \<Rightarrow> sprite \<Rightarrow> sprite \<Rightarrow> direction \<Rightarrow> error + sprite"
  distance :: "shape \<Rightarrow> shape \<Rightarrow> sprite \<Rightarrow> sprite \<Rightarrow> direction \<Rightarrow> error + real"

definition three_kinds :: "shape \<Rightarrow> bool" where
  "three_kinds sh = (sh = Circle \<or> sh = Square \<or> sh = Triangle)"

definition handle_collision :: "handlers \<Rightarrow> sprite \<Rightarrow> sprite \<Rightarrow> direction \<Rightarrow> error + sprite" where
  "handle_collision H self other d =
     (if shape self = Circle \<and> shape other = Circle then handle_circle_circle self other d
      else if shape self = Square \<and> shape other = Square then Inr (handle_square_square self other d)
      else if three_kinds (shape self) \<and> three_kinds (shape other)
      then snapper H (shape self) (shape other) self other d
      else Inl SystemExit)"

definition resolve_overlapping :: "handlers \<Rightarrow> sprite \<Rightarrow> sprite \<Rightarrow> direction \<Rightarrow> error + sprite" where
  "resolve_overlapping H self other d =
     (if shape self = Square \<and> shape other = Circle then square_circle_overlap self other d
      else if shape self = Square \<and> shape other = Square then Inr (square_square_overlap self other d)
      else if three_kinds (shape self) \<and> three_kinds (shape other)
      then resolver H (shape self) (shape other) self other d
      else Inl SystemExit)"

definition get_distance :: "handlers \<Rightarrow> sprite \<Rightarrow> sprite \<Rightarrow> direction \<Rightarrow> error + real" where
  "get_distance H s1 s2 d =
     (if shape s1 = Circle \<and> shape s2 = Circle then circle_circle_distance s1 s2 d
      else if shape s1 = Square \<and> shape s2 = Square then Inr (square_square_distance s1 s2 d)
      else if three_kinds (shape s1) \<and> three_kinds (shape s2)
      then distance H (shape s1) (shape s2) s1 s2 d
      else Inl SystemExit)"

section \<open>Overlap test and speculative collision test\<close>

text \<open>
  The value \<^verbatim>\<open>overlapping\<close> computed at the head of \<^verbatim>\<open>Sprite.avoid_overlapping\<close>: the
  overlap predicate of the ordered pair of shapes, on the two sprites as they stand. For
  a pair outside the three kinds the variable is never bound, and reading it raises.
\<close>

definition overlapping :: "sprite \<Rightarrow> sprite \<Rightarrow> bool outcome" where
  "overlapping self other =
     (case shape self of
        Circle \<Rightarrow>
          (case shape other of
             Circle \<Rightarrow> Some (circle_circle (position self) (position other) (propv self) (propv other))
           | Square \<Rightarrow> Some (square_circle (position self) (position other) (propv self) (propv other))
           | Triangle \<Rightarrow> Some (triangle_circle (vertices other) (position self) (propv self))
           | OtherShape \<Rightarrow> Some (Inl UnboundLocalError))
      | Square \<Rightarrow>
          (case shape other of
             Circle \<Rightarrow> Some (square_circle (position other) (position self) (propv other) (propv self))
           | Square \<Rightarrow> Some (Inr (check_collision self other))
           | Triangle \<Rightarrow> triangle_square (vertices other) (bounds self)
           | OtherShape \<Rightarrow> Some (Inl UnboundLocalError))
      | Triangle \<Rightarrow>
          (case shape other of
             Circle \<Rightarrow> Some (triangle_circle (vertices self) (position other) (propv other))
           | Square \<Rightarrow> triangle_square (vertices self) (bounds other)
           | Triangle \<Rightarrow> Some (TriTri2D (vertices self) (vertices other) True)
           | OtherShape \<Rightarrow> Some (Inl UnboundLocalError))
      | OtherShape \<Rightarrow> Some (Inl UnboundLocalError))"

text \<open>
  \<^verbatim>\<open>Sprite.avoid_overlapping\<close>: with \<^verbatim>\<open>resolve\<close> the overlap is resolved and nothing is
  returned, without it the value of \<^verbatim>\<open>overlapping\<close> is returned and nothing moves.
\<close>

definition avoid_overlapping ::
  "handlers \<Rightarrow> sprite \<Rightarrow> sprite \<Rightarrow> direction \<Rightarrow> bool \<Rightarrow> (sprite \<times> bool option) outcome" where
  "avoid_overlapping H self other d resolve =
     (case overlapping self other of
        None \<Rightarrow> None
      | Some (Inl e) \<Rightarrow> Some (Inl e)
      | Some (Inr ov) \<Rightarrow>
          if ov \<and> resolve
          then (case resolve_overlapping H self other d of
                  Inl e \<Rightarrow> Some (Inl e)
                | Inr self' \<Rightarrow> Some (Inr (self', None)))
          else Some (Inr (self, if \<not> resolve then Some ov else None)))"

text \<open>
  \<^verbatim>\<open>Sprite.detect_collision\<close>. The result carries the mover as the call leaves it, also
  when the call raises: \<^verbatim>\<open>self._position += motion\<close>, the test, and
  \<^verbatim>\<open>self._position -= motion\<close> are three statements in a row, so a test that raises
  leaves the mover translated. The other sprite is only read.
\<close>

definition translate :: "sprite \<Rightarrow> point \<Rightarrow> sprite" where
  "translate s motion = s\<lparr>position := padd (position s) motion\<rparr>"

definition untranslate :: "sprite \<Rightarrow> point \<Rightarrow> sprite" where
  "untranslate s motion = s\<lparr>position := psub (position s) motion\<rparr>"

definition speculative :: "sprite \<Rightarrow> point \<Rightarrow> bool outcome \<Rightarrow> ((error + bool) \<times> sprite) option" where
  "speculative moved motion test =
     (case test of
        None \<Rightarrow> None
      | Some (Inl e) \<Rightarrow> Some (Inl e, moved)
      | Some (Inr c) \<Rightarrow> Some (Inr c, untranslate moved motion))"

text \<open>
  The second condition of the triangle against triangle case: \<open>sv\<close> and \<open>ov\<close> are the
  vertices of the translated mover and of the other triangle, \<open>p1\<close>, \<open>p2\<close> the heights
  of the mover's vertices 1 and 2 before the translation, \<open>p3\<close>, \<open>p4\<close> after it. It
  is computed after \<^verbatim>\<open>TriTri2D\<close> has returned, so the mover has three vertices and the
  other has three or one; with one, reading its vertex 1 or 2 raises \<^verbatim>\<open>IndexError\<close> once
  the first half of a test holds.
\<close>

definition condition2 ::
  "direction \<Rightarrow> point list \<Rightarrow> point list \<Rightarrow> real \<Rightarrow> real \<Rightarrow> real \<Rightarrow> real \<Rightarrow> error + bool" where
  "condition2 d sv ov p1 p2 p3 p4 =
     (case sv of
        [s0, s1, s2] \<Rightarrow>
          (case ov of
             [o0, o1, o2] \<Rightarrow>
               (case d of
                  Down \<Rightarrow>
                    (let c = (if fst s2 < fst o0 \<and> fst s2 \<ge> fst o1 then snd o1 \<le> p1 \<and> snd o1 \<ge> p3
                              else False)
                     in Inr (if fst s1 > fst o0 \<and> fst s1 \<le> fst o2 then snd o2 \<le> p2 \<and> snd o2 \<ge> p4
                             else c))
                | Up \<Rightarrow>
                    (let c = (if fst s2 < fst o0 \<and> fst s2 \<ge> fst o1 then snd o1 \<le> p3 \<and> snd o1 \<ge> p1
                              else False)
                     in Inr (if fst s1 > fst o0 \<and> fst s1 \<le> fst o2 then snd o2 \<le> p4 \<and> snd o2 \<ge> p2
                             else c))
                | _ \<Rightarrow> Inr False)
           | [o0] \<Rightarrow>
               (if d = Down \<or> d = Up
                then (if fst s2 < fst o0 \<or> fst s1 > fst o0 then Inl IndexError else Inr False)
                else Inr False)
           | _ \<Rightarrow> Inr False)
      | _ \<Rightarrow> Inr False)"

definition triangle_triangle_test :: "direction \<Rightarrow> sprite \<Rightarrow> sprite \<Rightarrow> real \<Rightarrow> real \<Rightarrow> error + bool" where
  "triangle_triangle_test d moved other p1 p2 =
     (case vertices moved of
        _ # m1 # m2 # _ \<Rightarrow>
          (case TriTri2D (vertices moved) (vertices other) True of
             Inl e \<Rightarrow> Inl e
           | Inr collision \<Rightarrow>
               (case condition2 d (vertices moved) (vertices other) p1 p2 (snd m1) (snd m2) of
                  Inl e \<Rightarrow> Inl e
                | Inr second \<Rightarrow> Inr (collision \<or> second)))
      | _ \<Rightarrow> Inl IndexError)"

definition detect_collision ::
  "sprite \<Rightarrow> sprite \<Rightarrow> point \<Rightarrow> direction \<Rightarrow> ((error + bool) \<times> sprite) option" where
  "detect_collision self other motion d =
     (case shape self of
        Circle \<Rightarrow>
          (case shape other of
             Circle \<Rightarrow>
               Some (circle_circle (padd (position self) motion) (position other) (propv self) (propv other), self)
           | Square \<Rightarrow>
               Some (square_circle (padd (position self) motion) (position other) (propv self) (propv other), self)
           | Triangle \<Rightarrow>
               Some (triangle_circle (vertices other) (padd (position self) motion) (propv self), self)
           | OtherShape \<Rightarrow> Some (Inl UnboundLocalError, self))
      | Square \<Rightarrow>
          (case shape other of
             Circle \<Rightarrow>
               Some (square_circle (position other) (padd (position self) motion) (propv other) (propv self), self)
           | Square \<Rightarrow>
               speculative (translate self motion) motion
                 (Some (Inr (check_collision (translate self motion) other)))
           | Triangle \<Rightarrow>
               speculative (translate self motion) motion
                 (triangle_square (vertices other) (bounds (translate self motion)))
           | OtherShape \<Rightarrow> Some (Inl UnboundLocalError, self))
      | Triangle \<Rightarrow>
          (case vertices self of
             _ # v1 # v2 # _ \<Rightarrow>
               (case shape other of
                  Circle \<Rightarrow>
                    speculative (translate self motion) motion
                      (Some (triangle_circle (vertices (translate self motion)) (position other) (propv other)))
                | Square \<Rightarrow>
                    speculative (translate self motion) motion
                      (triangle_square (vertices (translate self motion)) (bounds other))
                | Triangle \<Rightarrow>
                    speculative (translate self motion) motion
                      (Some (triangle_triangle_test d (translate self motion) other (snd v1) (snd v2)))
                | OtherShape \<Rightarrow> Some (Inl UnboundLocalError, untranslate (translate self motion) motion))
           | _ \<Rightarrow> Some (Inl IndexError, self))
      | OtherShape \<Rightarrow> Some (Inl UnboundLocalError, self))"

section \<open>Relative positions and the closest candidate\<close>

text \<open>The dictionary \<^verbatim>\<open>opposite\<close> and \<^verbatim>\<open>get_motion_direction\<close> of \<^verbatim>\<open>utils.py\<close>.\<close>

definition opposite :: "direction \<Rightarrow> direction" where
  "opposite d = (case d of Right \<Rightarrow> Left | Left \<Rightarrow> Right | Up \<Rightarrow> Down | Down \<Rightarrow> Up)"

definition get_motion_direction :: "point \<Rightarrow> error + direction" where
  "get_motion_direction motion =
     (if fst motion = 0 \<and> snd motion > 0 then Inr Up
      else if snd motion = 0 \<and> fst motion > 0 then Inr Right
      else if fst motion = 0 \<and> snd motion < 0 then Inr Down
      else if snd motion = 0 \<and> fst motion < 0 then Inr Left
      else Inl SystemExit)"

text \<open>
  The nine position functions: a list of directions, appended in the order
  left, right, down or up as each function has it.
\<close>

definition dirs :: "(bool \<times> direction) list \<Rightarrow> direction list" where
  "dirs tests = map snd (filter fst tests)"

definition circle_circle_position :: "sprite \<Rightarrow> sprite \<Rightarrow> direction list" where
  "circle_circle_position s1 s2 =
     dirs [(sx s1 < sx s2, Left), (sx s1 > sx s2, Right), (sy s1 < sy s2, Down), (sy s1 > sy s2, Up)]"

definition circle_square_position :: "sprite \<Rightarrow> sprite \<Rightarrow> bool \<Rightarrow> direction list" where
  "circle_square_position s1 s2 reverse =
     (let directions =
        dirs [(sx s1 < b0 (bounds s2), Left), (sx s1 > b2 (bounds s2), Right),
              (sy s1 < b1 (bounds s2), Down), (sy s1 > b3 (bounds s2), Up)]
      in if reverse then map opposite directions else directions)"

definition circle_triangle_position :: "sprite \<Rightarrow> sprite \<Rightarrow> error + direction list" where
  "circle_triangle_position c t =
     (case propv c of
        None \<Rightarrow> Inl TypeError
      | Some r \<Rightarrow>
          (let y = sy c + r * sin (5 * pi / 4);
               level = b1 (bounds c) < b3 (bounds t) \<and> b3 (bounds c) > b1 (bounds t)
           in Inr (dirs [(sx c < sx t \<and> level, Left), (sx c > sx t \<and> level, Right),
                         (y > b1 (bounds t), Up), (sy c + r \<le> b1 (bounds t) + 2 / 100, Down)])))"

definition triangle_circle_position :: "sprite \<Rightarrow> sprite \<Rightarrow> direction list" where
  "triangle_circle_position c t =
     (let level = ((b1 (bounds t) \<le> b3 (bounds c) \<and> b3 (bounds t) \<ge> b1 (bounds c))
                   \<or> (b3 (bounds t) \<le> b3 (bounds c) \<and> b1 (bounds t) \<ge> b1 (bounds c)))
      in dirs [(sx t < sx c \<and> level, Left), (sx t > sx c \<and> level, Right),
               (b1 (bounds t) > sy c, Up), (b1 (bounds t) \<le> sy c, Down)])"

definition square_square_position :: "sprite \<Rightarrow> sprite \<Rightarrow> direction list" where
  "square_square_position s1 s2 =
     dirs [(sx s1 \<le> b0 (bounds s2), Left), (sx s1 \<ge> b2 (bounds s2), Right),
           (sy s1 \<le> b1 (bounds s2), Down), (sy s1 \<ge> b3 (bounds s2), Up)]"

definition square_triangle_position :: "sprite \<Rightarrow> sprite \<Rightarrow> direction list" where
  "square_triangle_position s t =
     (let level = b1 (bounds s) < b3 (bounds t) \<and> b3 (bounds s) > b1 (bounds t)
      in dirs [(sx s < sx t \<and> level, Left), (sx s > sx t \<and> level, Right),
               (b1 (bounds s) > b1 (bounds t), Up),
               (sy s < b1 (bounds t) \<and> b0 (bounds s) \<le> b2 (bounds t) \<and> b2 (bounds s) \<ge> b0 (bounds t), Down)])"

definition triangle_square_position :: "sprite \<Rightarrow> sprite \<Rightarrow> direction list" where
  "triangle_square_position t s =
     (let level = b1 (bounds t) \<le> b3 (bounds s) \<and> b3 (bounds t) \<ge> b1 (bounds s)
      in dirs [(sx t < sx s \<and> level, Left), (sx t > sx s \<and> level, Right),
               (sy t \<ge> b3 (bounds s), Up),
               (b1 (bounds t) < b1 (bounds s) \<and> b2 (bounds t) \<ge> b0 (bounds s) \<and> b0 (bounds t) \<le> b2 (bounds t), Down)])"

definition triangle_triangle_position :: "sprite \<Rightarrow> sprite \<Rightarrow> direction list" where
  "triangle_triangle_position t1 t2 =
     (let level = b1 (bounds t1) < b3 (bounds t2) \<and> b3 (bounds t1) > b1 (bounds t2)
      in dirs [(sx t1 < sx t2 \<and> level, Left), (sx t1 > sx t2 \<and> level, Right),
               (b1 (bounds t1) > b1 (bounds t2), Up),
               (sy t1 < b1 (bounds t2) \<and> b0 (bounds t1) \<le> b2 (bounds t2) \<and> b2 (bounds t1) \<ge> b0 (bounds t2), Down)])"

definition get_relative_positions :: "sprite \<Rightarrow> sprite \<Rightarrow> error + direction list" where
  "get_relative_positions s1 s2 =
     (if shape s1 = Circle
      then (if shape s2 = Circle then Inr (circle_circle_position s1 s2)
            else if shape s2 = Square then Inr (circle_square_position s1 s2 False)
            else circle_triangle_position s1 s2)
      else if shape s1 = Square
      then (if shape s2 = Circle then Inr (circle_square_position s2 s1 True)
            else if shape s2 = Square then Inr (square_square_position s1 s2)
            else Inr (square_triangle_position s1 s2))
      else (if shape s2 = Circle then Inr (triangle_circle_position s2 s1)
            else if shape s2 = Square then Inr (triangle_square_position s1 s2)
            else Inr (triangle_triangle_position s1 s2)))"

text \<open>
  The sprites of a scene are objects that \<^verbatim>\<open>move\<close> mutates and compares by identity, so
  a scene is a store from identities to sprites and a list of sprites is a list of
  identities. The mover is never a member of its own list of others.
\<close>

type_synonym store = "nat \<Rightarrow> sprite"

text \<open>\<^verbatim>\<open>get_closest\<close>: \<^verbatim>\<open>np.argmin\<close> takes the first least distance, \<^verbatim>\<open>pop\<close> removes it.\<close>

fun all_distances :: "handlers \<Rightarrow> store \<Rightarrow> nat \<Rightarrow> nat list \<Rightarrow> direction \<Rightarrow> error + real list" where
  "all_distances H st self [] d = Inr []"
| "all_distances H st self (c # cs) d =
     (case get_distance H (st self) (st c) d of
        Inl e \<Rightarrow> Inl e
      | Inr x \<Rightarrow> (case all_distances H st self cs d of Inl e \<Rightarrow> Inl e | Inr xs \<Rightarrow> Inr (x # xs)))"

fun first_index :: "real \<Rightarrow> real list \<Rightarrow> nat" where
  "first_index m [] = 0"
| "first_index m (x # xs) = (if x = m then 0 else Suc (first_index m xs))"

definition argmin :: "real list \<Rightarrow> nat" where
  "argmin xs = first_index (Min (set xs)) xs"

definition get_closest ::
  "handlers \<Rightarrow> store \<Rightarrow> nat \<Rightarrow> nat list \<Rightarrow> direction \<Rightarrow> error + nat \<times> nat list" where
  "get_closest H st self carried d =
     (case all_distances H st self carried d of
        Inl e \<Rightarrow> Inl e
      | Inr xs \<Rightarrow>
          if carried = [] then Inl ValueError
          else Inr (carried ! argmin xs, take (argmin xs) carried @ drop (Suc (argmin xs)) carried))"

text \<open>\<^verbatim>\<open>get_carried_sprite\<close>: the others that the speculative test reports.\<close>

fun get_carried_sprite ::
  "store \<Rightarrow> nat \<Rightarrow> nat list \<Rightarrow> point \<Rightarrow> direction \<Rightarrow> (store \<times> nat list) outcome" where
  "get_carried_sprite st self [] motion d = Some (Inr (st, []))"
| "get_carried_sprite st self (c # cs) motion d =
     (case detect_collision (st self) (st c) motion d of
        None \<Rightarrow> None
      | Some (Inl e, self') \<Rightarrow> Some (Inl e)
      | Some (Inr hit, self') \<Rightarrow>
          (case get_carried_sprite (st(self := self')) self cs motion d of
             None \<Rightarrow> None
           | Some (Inl e) \<Rightarrow> Some (Inl e)
           | Some (Inr (st', rest)) \<Rightarrow> Some (Inr (st', if hit then c # rest else rest))))"

section \<open>Movement orchestrator\<close>

text \<open>
  The loop of \<^verbatim>\<open>Sprite.move\<close> over the candidates left after the closest one. \<open>mv\<close> is
  the recursive call \<^verbatim>\<open>carried_sprite.move(motion, keep_in_frame, others_)\<close>.
\<close>

fun secondary_loop ::
  "(store \<Rightarrow> nat \<Rightarrow> nat list option \<Rightarrow> store outcome) \<Rightarrow> handlers \<Rightarrow> store \<Rightarrow> nat \<Rightarrow>
   nat list \<Rightarrow> direction \<Rightarrow> nat list \<Rightarrow> store outcome" where
  "secondary_loop mv H st self [] d others = Some (Inr st)"
| "secondary_loop mv H st self (c # cs) d others =
     (case avoid_overlapping H (st self) (st c) d False of
        None \<Rightarrow> None
      | Some (Inl e) \<Rightarrow> Some (Inl e)
      | Some (Inr (_, ov)) \<Rightarrow>
          if ov = Some True
          then (case mv st c (Some (filter (\<lambda>i. i \<noteq> c) others)) of
                  None \<Rightarrow> None
                | Some (Inl e) \<Rightarrow> Some (Inl e)
                | Some (Inr st1) \<Rightarrow>
                    (case avoid_overlapping H (st1 self) (st1 c) d True of
                       None \<Rightarrow> None
                     | Some (Inl e) \<Rightarrow> Some (Inl e)
                     | Some (Inr (self', _)) \<Rightarrow> secondary_loop mv H (st1(self := self')) self cs d others))
          else secondary_loop mv H st self cs d others)"

definition finish :: "bool \<Rightarrow> nat \<Rightarrow> store \<Rightarrow> store" where
  "finish keep_in_frame self st = st(self := frame_clamp keep_in_frame (st self))"

text \<open>
  The body of \<^verbatim>\<open>Sprite.move\<close> with a list of others, \<open>mv\<close> standing for the recursive
  calls of \<^verbatim>\<open>move\<close> on a carried sprite.
\<close>

definition move_step ::
  "(store \<Rightarrow> nat \<Rightarrow> nat list option \<Rightarrow> store outcome) \<Rightarrow> handlers \<Rightarrow> store \<Rightarrow> nat \<Rightarrow>
   point \<Rightarrow> bool \<Rightarrow> nat list \<Rightarrow> store outcome" where
  "move_step mv H st self motion keep_in_frame others =
     (case get_motion_direction motion of
        Inl e \<Rightarrow> Some (Inl e)
      | Inr d \<Rightarrow>
        (case get_carried_sprite st self others motion d of
           None \<Rightarrow> None
         | Some (Inl e) \<Rightarrow> Some (Inl e)
         | Some (Inr (st1, carried)) \<Rightarrow>
             if carried \<noteq> []
             then
               (case get_closest H st1 self carried d of
                  Inl e \<Rightarrow> Some (Inl e)
                | Inr (cs, rest) \<Rightarrow>
                  (case handle_collision H (st1 self) (st1 cs) d of
                     Inl e \<Rightarrow> Some (Inl e)
                   | Inr snapped \<Rightarrow>
                     (case get_relative_positions snapped ((st1(self := snapped)) cs) of
                        Inl e \<Rightarrow> Some (Inl e)
                      | Inr positions \<Rightarrow>
                        (case (if d \<in> set (map opposite positions)
                               then (case mv (st1(self := translate snapped motion)) cs
                                            (Some (filter (\<lambda>i. i \<noteq> cs) others)) of
                                       None \<Rightarrow> None
                                     | Some (Inl e) \<Rightarrow> Some (Inl e)
                                     | Some (Inr st3) \<Rightarrow>
                                         (case avoid_overlapping H (st3 self) (st3 cs) d True of
                                            None \<Rightarrow> None
                                          | Some (Inl e) \<Rightarrow> Some (Inl e)
                                          | Some (Inr (self', _)) \<Rightarrow> Some (Inr (st3(self := self')))))
                               else Some (Inr (st1(self := translate snapped motion)))) of
                           None \<Rightarrow> None
                         | Some (Inl e) \<Rightarrow> Some (Inl e)
                         | Some (Inr st5) \<Rightarrow>
                             (case secondary_loop mv H st5 self rest d others of
                                None \<Rightarrow> None
                              | Some (Inl e) \<Rightarrow> Some (Inl e)
                              | Some (Inr st6) \<Rightarrow> Some (Inr (finish keep_in_frame self st6)))))))
             else Some (Inr (finish keep_in_frame self (st1(self := translate (st1 self) motion))))))"

text \<open>
  \<^verbatim>\<open>Sprite.move\<close>. Each recursive call is on a list of others that has lost the sprite it
  is called on; the first argument counts the nested calls still allowed, and running
  out of them has the value \<open>None\<close>. One more than the length of the list of others is
  always enough.
\<close>

fun move_fuel ::
  "nat \<Rightarrow> handlers \<Rightarrow> store \<Rightarrow> nat \<Rightarrow> point \<Rightarrow> bool \<Rightarrow> nat list option \<Rightarrow> store outcome" where
  "move_fuel 0 H st self motion keep_in_frame others = None"
| "move_fuel (Suc n) H st self motion keep_in_frame None =
     Some (Inr (finish keep_in_frame self (st(self := translate (st self) motion))))"
| "move_fuel (Suc n) H st self motion keep_in_frame (Some others) =
     move_step (\<lambda>st c os. move_fuel n H st c motion keep_in_frame os) H st self motion
       keep_in_frame others"

definition move ::
  "handlers \<Rightarrow> store \<Rightarrow> nat \<Rightarrow> point \<Rightarrow> bool \<Rightarrow> nat list option \<Rightarrow> store outcome" where
  "move H st self motion keep_in_frame others =
     move_fuel (Suc (case others of None \<Rightarrow> 0 | Some os \<Rightarrow> length os)) H st self motion
       keep_in_frame others"

section \<open>Notions used in the statements\<close>

text \<open>
  A square of side \<open>a\<close> with its sides along the axes: the extent of its centered path
  reaches \<open>a / 2\<close> to each side of the position.
\<close>

definition square_of_side :: "sprite \<Rightarrow> real \<Rightarrow> bool" where
  "square_of_side s a \<longleftrightarrow>
     shape s = Square \<and> centered_path s \<noteq> [] \<and>
     bounds_of (centered_path s) = (- (a / 2), - (a / 2), a / 2, a / 2)"

text \<open>
  The centered path of a square of half side \<open>h\<close> at angle 0, in the vertex order the
  handlers index by: upper right, upper left, lower left, lower right.
\<close>

definition square_path :: "real \<Rightarrow> point list" where
  "square_path h = [(h, h), (- h, h), (- h, - h), (h, - h)]"

definition axis_square :: "sprite \<Rightarrow> real \<Rightarrow> bool" where
  "axis_square s h \<longleftrightarrow> shape s = Square \<and> 0 < h \<and> centered_path s = square_path h"

text \<open>
  The stored characteristic size agrees with the polygon when recomputing it by
  \<^verbatim>\<open>_geometrical_properties\<close> would not change it.
\<close>

definition prop_consistent :: "sprite \<Rightarrow> bool" where
  "prop_consistent s \<longleftrightarrow> propv s = propv (geometrical_properties s)"

definition example_square :: "real \<Rightarrow> real \<Rightarrow> real \<Rightarrow> sprite" where
  "example_square x y a = Sprite example_shapes x y Square 0 a (0, 0, 0) (0, 0)"

definition example_circle :: "real \<Rightarrow> real \<Rightarrow> real \<Rightarrow> sprite" where
  "example_circle x y r = Sprite example_shapes x y Circle 0 r (0, 0, 0) (0, 0)"

definition example_triangle :: "real \<Rightarrow> real \<Rightarrow> real \<Rightarrow> sprite" where
  "example_triangle x y k = Sprite example_shapes x y Triangle 0 k (0, 0, 0) (0, 0)"

text \<open>The coordinate of a sprite across a direction of motion.\<close>

definition across :: "direction \<Rightarrow> sprite \<Rightarrow> real" where
  "across d s = (case d of Up \<Rightarrow> sx s | Down \<Rightarrow> sx s | Right \<Rightarrow> sy s | Left \<Rightarrow> sy s)"

text \<open>The vertices of an axis-aligned square of half side \<open>h\<close> around \<open>(x, y)\<close>.\<close>

definition rect :: "real \<Rightarrow> real \<Rightarrow> real \<Rightarrow> point list" where
  "rect x y h = [(x + h, y + h), (x - h, y + h), (x - h, y - h), (x + h, y - h)]"

text \<open>A scene of two sprites, the mover under identity 0.\<close>

definition two_sprites :: "sprite \<Rightarrow> sprite \<Rightarrow> store" where
  "two_sprites a b = (\<lambda>i. if i = 0 then a else b)"

text \<open>
  The number of sides of the clip rectangle that one of the two end points of a segment
  lies beyond; it decreases with every round of the clipping loop.
\<close>

definition clip_measure :: "bounds \<Rightarrow> real \<Rightarrow> real \<Rightarrow> real \<Rightarrow> real \<Rightarrow> nat" where
  "clip_measure bnds x1 y1 x2 y2 =
     (if x1 < b0 bnds \<or> x2 < b0 bnds then 1 else 0) + (if x1 > b2 bnds \<or> x2 > b2 bnds then 1 else 0)
     + (if y1 < b1 bnds \<or> y2 < b1 bnds then 1 else 0) + (if y1 > b3 bnds \<or> y2 > b3 bnds then 1 else 0)"

text \<open>
  A value for the parameter \<open>H\<close> in the examples below, none of which reaches it.
\<close>

definition unused_handlers :: handlers where
  "unused_handlers =
     \<lparr>snapper = (\<lambda>_ _ _ _ _. Inl SystemExit), resolver = (\<lambda>_ _ _ _ _. Inl SystemExit),
      distance = (\<lambda>_ _ _ _ _. Inl SystemExit)\<rparr>"

section \<open>Bounds under translation\<close>

lemma bounds_of_translate:
  assumes "vs \<noteq> []"
  shows "bounds_of (map (\<lambda>v. padd v p) vs) =
    (b0 (bounds_of vs) + fst p, b1 (bounds_of vs) + snd p,
     b2 (bounds_of vs) + fst p, b3 (bounds_of vs) + snd p)"
proof -
  have fin: "finite (set vs)" "set vs \<noteq> {}" using assms by auto
  have 1: "Min (set (map fst (map (\<lambda>v. padd v p) vs))) = Min (set (map fst vs)) + fst p"
    using Min_add_commute [OF fin, of fst "fst p"]
    by (simp add: padd_def image_image)
  have 2: "Min (set (map snd (map (\<lambda>v. padd v p) vs))) = Min (set (map snd vs)) + snd p"
    using Min_add_commute [OF fin, of snd "snd p"]
    by (simp add: padd_def image_image)
  have 3: "Max (set (map fst (map (\<lambda>v. padd v p) vs))) = Max (set (map fst vs)) + fst p"
    using Max_add_commute [OF fin, of fst "fst p"]
    by (simp add: padd_def image_image)
  have 4: "Max (set (map snd (map (\<lambda>v. padd v p) vs))) = Max (set (map snd vs)) + snd p"
    using Max_add_commute [OF fin, of snd "snd p"]
    by (simp add: padd_def image_image)
  show ?thesis
    unfolding bounds_of_def b0_def b1_def b2_def b3_def using 1 2 3 4 by simp
qed

lemma bounds_centered:
  assumes "centered_path s \<noteq> []"
  shows "bounds s =
    (b0 (bounds_of (centered_path s)) + sx s, b1 (bounds_of (centered_path s)) + sy s,
     b2 (bounds_of (centered_path s)) + sx s, b3 (bounds_of (centered_path s)) + sy s)"
  unfolding bounds_def vertices_def sx_def sy_def
  using bounds_of_translate [OF assms] by simp

lemma bounds_of_ordered:
  assumes "vs \<noteq> []"
  shows "b0 (bounds_of vs) \<le> b2 (bounds_of vs)" and "b1 (bounds_of vs) \<le> b3 (bounds_of vs)"
proof -
  obtain v where v: "v \<in> set vs" using assms by (cases vs) auto
  have "Min (set (map fst vs)) \<le> fst v" "fst v \<le> Max (set (map fst vs))"
    using v by (auto intro: Min_le Max_ge)
  moreover have "Min (set (map snd vs)) \<le> snd v" "snd v \<le> Max (set (map snd vs))"
    using v by (auto intro: Min_le Max_ge)
  ultimately show "b0 (bounds_of vs) \<le> b2 (bounds_of vs)" and "b1 (bounds_of vs) \<le> b3 (bounds_of vs)"
    by (simp_all add: bounds_of_def b0_def b1_def b2_def b3_def)
qed

lemma bounds_position_update:
  assumes "centered_path s \<noteq> []"
  shows "bounds (s\<lparr>position := p\<rparr>) =
    (b0 (bounds s) + (fst p - sx s), b1 (bounds s) + (snd p - sy s),
     b2 (bounds s) + (fst p - sx s), b3 (bounds s) + (snd p - sy s))"
proof -
  have "centered_path (s\<lparr>position := p\<rparr>) \<noteq> []" using assms by simp
  from bounds_centered [OF this] bounds_centered [OF assms]
  show ?thesis by (simp add: sx_def sy_def b0_def b1_def b2_def b3_def)
qed

section \<open>The example sprites\<close>

lemma example_square_path:
  "centered_path (example_square x y a) =
     [(a / 2, a / 2), (- (a / 2), a / 2), (- (a / 2), - (a / 2)), (a / 2, - (a / 2))]"
  by (simp add: example_square_def Sprite_def geometrical_properties_def reset_centered_path_def
      example_shapes_def Let_def rotate_deg_def scale_pt_def)

lemma example_square_fields:
  "shape (example_square x y a) = Square" "position (example_square x y a) = (x, y)"
  by (simp_all add: example_square_def Sprite_def geometrical_properties_def
      reset_centered_path_def Let_def)

lemma example_square_of_side: "0 \<le> a \<Longrightarrow> square_of_side (example_square x y a) a"
  by (simp add: square_of_side_def example_square_path example_square_fields bounds_of_def
      min_def max_def)

section \<open>Pose and vertices\<close>

lemma rot_aux:
  "(cos A * (cos B * x - sin B * y) - sin A * (sin B * x + cos B * y),
    sin A * (cos B * x - sin B * y) + cos A * (sin B * x + cos B * y))
   = (cos (A + B) * x - sin (A + B) * (y::real), sin (A + B) * x + cos (A + B) * y)"
  by (simp add: cos_add sin_add algebra_simps)

lemma rotate_deg_compose: "rotate_deg a (rotate_deg b p) = rotate_deg (a + b) p"
proof -
  have "(a + b) * pi / 180 = a * pi / 180 + b * pi / 180" by (simp add: algebra_simps)
  then show ?thesis
    by (simp only: rotate_deg_def Let_def fst_conv snd_conv rot_aux)
qed

lemma padd_right_cancel: "padd u p = padd v p \<longleftrightarrow> u = v"
  by (cases u, cases v) (simp add: padd_def)

lemma centered_of_pose:
  assumes "vertices s = pose_vertices SHAPES s"
  shows "centered_path s = map (\<lambda>v. rotate_deg (angle s) (scale_pt (scale s) v)) (SHAPES (shape s))"
proof -
  have "map (\<lambda>v. padd v (position s)) (centered_path s) =
        map (\<lambda>v. padd v (position s))
          (map (\<lambda>v. rotate_deg (angle s) (scale_pt (scale s) v)) (SHAPES (shape s)))"
    using assms by (simp add: vertices_def pose_vertices_def)
  moreover have "inj (\<lambda>v. padd v (position s))"
    by (rule injI) (simp add: padd_right_cancel)
  ultimately show ?thesis by (simp only: inj_map_eq_map)
qed

text \<open>
  The constructor and the setters of \<^verbatim>\<open>shape\<close> and \<^verbatim>\<open>angle\<close> keep the vertices in agreement
  with the stored pose.
\<close>

lemma Sprite_pose: "vertices (Sprite SHAPES x y sh a sc col vel) = pose_vertices SHAPES (Sprite SHAPES x y sh a sc col vel)"
  by (simp add: Sprite_def geometrical_properties_def reset_centered_path_def vertices_def
      pose_vertices_def Let_def)

lemma shape_set_pose:
  "vertices (shape_set SHAPES sh s) = pose_vertices SHAPES (shape_set SHAPES sh s)"
  by (simp add: shape_set_def vertices_def reset_centered_path_def pose_vertices_def)

lemma angle_set_pose:
  assumes "vertices s = pose_vertices SHAPES s"
  shows "vertices (angle_set a s) = pose_vertices SHAPES (angle_set a s)"
  using centered_of_pose [OF assms]
  by (simp add: angle_set_def vertices_def pose_vertices_def rotate_deg_compose)

text \<open>
  The setter of \<^verbatim>\<open>scale\<close> multiplies the centered path by the difference of the new and
  the old scale.
\<close>

lemma scale_set_vertices:
  "vertices (scale_set k s) =
     map (\<lambda>v. padd (scale_pt (k - scale s) v) (position s)) (centered_path s)"
  by (simp add: scale_set_def vertices_def)

text \<open>
  C2. The claim: after any assignments through the setters the vertices are the canonical
  vertex set scaled by the stored scale, rotated by the stored angle and translated by
  the position. The code breaks it in the setter of \<^verbatim>\<open>scale\<close>: a square built at
  scale 0.1 and then set to scale 0.2 has the vertices of a square of side 0.01, where
  its stored pose describes a square of side 0.2.
\<close>

theorem scale_set_stale_vertices:
  "vertices (assign_all example_shapes [SetScale (2 / 10)] (example_square (1 / 2) (1 / 2) (1 / 10)))
     = [(505 / 1000, 505 / 1000), (495 / 1000, 505 / 1000), (495 / 1000, 495 / 1000), (505 / 1000, 495 / 1000)]
   \<and> pose_vertices example_shapes
       (assign_all example_shapes [SetScale (2 / 10)] (example_square (1 / 2) (1 / 2) (1 / 10)))
     = [(6 / 10, 6 / 10), (4 / 10, 6 / 10), (4 / 10, 4 / 10), (6 / 10, 4 / 10)]"
  by (simp add: assign_all_def scale_set_def vertices_def pose_vertices_def example_square_def Sprite_def
      geometrical_properties_def reset_centered_path_def example_shapes_def Let_def rotate_deg_def
      scale_pt_def padd_def)

section \<open>The characteristic size\<close>

lemma vertices_propv: "vertices (s\<lparr>propv := r\<rparr>) = vertices s"
  by (simp add: vertices_def)

lemma geometrical_properties_idem:
  "geometrical_properties (geometrical_properties s) = geometrical_properties s"
  by (cases "shape s") (simp_all add: geometrical_properties_def Let_def vertices_propv)

text \<open>
  C5, as amended. The characteristic size is computed from the polygon area when the
  sprite is constructed: the radius \<open>sqrt (area / pi)\<close> for a circle, the side
  \<open>sqrt area\<close> for a square, none for a triangle, the area being that of the polygon
  of the constructed sprite; it agrees with the polygon then. The setters of
  \<^verbatim>\<open>shape\<close> and \<^verbatim>\<open>scale\<close> leave the stored value as it is.
\<close>

theorem prop_set_at_construction_only:
  "propv (Sprite SHAPES x y Circle a sc col vel)
     = Some (sqrt (polygon_area (vertices (Sprite SHAPES x y Circle a sc col vel)) / pi))
   \<and> propv (Sprite SHAPES x y Square a sc col vel)
     = Some (sqrt (polygon_area (vertices (Sprite SHAPES x y Square a sc col vel))))
   \<and> propv (Sprite SHAPES x y Triangle a sc col vel) = None
   \<and> vertices (Sprite SHAPES x y sh a sc col vel)
     = map (\<lambda>v. padd (rotate_deg a (scale_pt sc v)) (x, y)) (SHAPES sh)
   \<and> prop_consistent (Sprite SHAPES x y sh a sc col vel)
   \<and> propv (shape_set SHAPES sh' s) = propv s
   \<and> propv (scale_set k s) = propv s"
proof -
  have 1: "propv (Sprite SHAPES x y Circle a sc col vel)
     = Some (sqrt (polygon_area (vertices (Sprite SHAPES x y Circle a sc col vel)) / pi))"
    by (simp add: Sprite_def geometrical_properties_def Let_def reset_centered_path_def vertices_def)
  have 2: "propv (Sprite SHAPES x y Square a sc col vel)
     = Some (sqrt (polygon_area (vertices (Sprite SHAPES x y Square a sc col vel))))"
    by (simp add: Sprite_def geometrical_properties_def Let_def reset_centered_path_def vertices_def)
  have 3: "propv (Sprite SHAPES x y Triangle a sc col vel) = None"
    by (simp add: Sprite_def geometrical_properties_def Let_def reset_centered_path_def)
  have 4: "vertices (Sprite SHAPES x y sh a sc col vel)
     = map (\<lambda>v. padd (rotate_deg a (scale_pt sc v)) (x, y)) (SHAPES sh)"
    by (simp add: Sprite_def geometrical_properties_def Let_def reset_centered_path_def vertices_def)
  have 5: "prop_consistent (Sprite SHAPES x y sh a sc col vel)"
    by (simp add: prop_consistent_def Sprite_def geometrical_properties_idem)
  have 6: "propv (shape_set SHAPES sh' s) = propv s" "propv (scale_set k s) = propv s"
    by (simp_all add: shape_set_def scale_set_def reset_centered_path_def)
  from 1 2 3 4 5 6 show ?thesis by blast
qed

text \<open>
  C5, as stated, fails: a sprite built as a triangle has no characteristic size, and
  after its shape is set to circle it still has none, where recomputing would store a
  radius.
\<close>

theorem prop_stale_after_shape_set:
  "\<not> prop_consistent (shape_set example_shapes Circle (example_triangle (1 / 2) (1 / 2) (1 / 10)))"
  by (simp add: prop_consistent_def example_triangle_def Sprite_def geometrical_properties_def
      shape_set_def reset_centered_path_def Let_def)

section \<open>Scenario A\<close>

text \<open>
  C7. Two squares of side 0.1 at (0.50, 0.50) and (0.55, 0.50) overlap by 0.05 in x;
  the overlap resolver, applied to the first in direction right, returns it with its
  right edge 1e-5 to the left of the left edge of the second, at the same height.
\<close>

theorem scenario_A_squares:
  assumes "square_of_side s1 (1 / 10)" and "square_of_side s2 (1 / 10)"
    and "position s1 = (1 / 2, 1 / 2)" and "position s2 = (55 / 100, 1 / 2)"
  shows "b2 (bounds s1) - b0 (bounds s2) = 5 / 100
    \<and> (\<exists>s1'. resolve_overlapping H s1 s2 Right = Inr s1'
          \<and> b2 (bounds s1') = b0 (bounds s2) - 1 / 100000
          \<and> b0 (bounds s2) - b2 (bounds s1') = 1 / 100000
          \<and> sy s1' = sy s1)"
proof -
  have ne: "centered_path s1 \<noteq> []" "centered_path s2 \<noteq> []"
    using assms by (simp_all add: square_of_side_def)
  have sh: "shape s1 = Square" "shape s2 = Square"
    using assms by (simp_all add: square_of_side_def)
  have B1: "bounds s1 = (45 / 100, 45 / 100, 55 / 100, 55 / 100)"
    using bounds_centered [OF ne(1)] assms
    by (simp add: square_of_side_def sx_def sy_def b0_def b1_def b2_def b3_def)
  have B2: "bounds s2 = (1 / 2, 45 / 100, 6 / 10, 55 / 100)"
    using bounds_centered [OF ne(2)] assms
    by (simp add: square_of_side_def sx_def sy_def b0_def b1_def b2_def b3_def)
  have P: "resolve_overlapping H s1 s2 Right = Inr (s1\<lparr>position := (44999 / 100000, 1 / 2)\<rparr>)"
    using assms sh
    by (simp add: resolve_overlapping_def square_square_overlap_def B1 B2 b0_def b1_def b2_def
        b3_def sx_def sy_def)
  have B1': "bounds (s1\<lparr>position := (44999 / 100000, 1 / 2)\<rparr>)
      = (39999 / 100000, 45 / 100, 49999 / 100000, 55 / 100)"
    using bounds_position_update [OF ne(1), of "(44999 / 100000, 1 / 2)"] assms
    by (simp add: B1 b0_def b1_def b2_def b3_def sx_def sy_def)
  show ?thesis
    unfolding P using assms by (simp add: B1 B1' B2 b0_def b1_def b2_def b3_def sx_def sy_def)
qed

text \<open>The theorem on the two squares built from the example shape table.\<close>

theorem scenario_A_squares_witness:
  "square_of_side (example_square (1 / 2) (1 / 2) (1 / 10)) (1 / 10)
   \<and> square_of_side (example_square (55 / 100) (1 / 2) (1 / 10)) (1 / 10)
   \<and> position (example_square (1 / 2) (1 / 2) (1 / 10)) = (1 / 2, 1 / 2)
   \<and> position (example_square (55 / 100) (1 / 2) (1 / 10)) = (55 / 100, 1 / 2)
   \<and> (\<exists>s1'. resolve_overlapping unused_handlers (example_square (1 / 2) (1 / 2) (1 / 10))
              (example_square (55 / 100) (1 / 2) (1 / 10)) Right = Inr s1'
          \<and> b0 (bounds (example_square (55 / 100) (1 / 2) (1 / 10))) - b2 (bounds s1') = 1 / 100000)"
proof -
  have a: "square_of_side (example_square (1 / 2) (1 / 2) (1 / 10)) (1 / 10)"
    and b: "square_of_side (example_square (55 / 100) (1 / 2) (1 / 10)) (1 / 10)"
    by (simp_all add: example_square_of_side)
  have c: "position (example_square (1 / 2) (1 / 2) (1 / 10)) = (1 / 2, 1 / 2)"
    and d: "position (example_square (55 / 100) (1 / 2) (1 / 10)) = (55 / 100, 1 / 2)"
    by (simp_all add: example_square_fields)
  from scenario_A_squares [OF a b c d, of unused_handlers] a b c d show ?thesis by blast
qed

section \<open>Axis-aligned squares\<close>

lemma det3_top: "det3 (x + h, y + h) (x - h, y + h) (p, q) = 2 * h * (y + h - q)"
  by (simp add: det3_def algebra_simps)

lemma det3_left: "det3 (x - h, y + h) (x - h, y - h) (p, q) = 2 * h * (p - (x - h))"
  by (simp add: det3_def algebra_simps)

lemma det3_bottom: "det3 (x - h, y - h) (x + h, y - h) (p, q) = 2 * h * (q - (y - h))"
  by (simp add: det3_def algebra_simps)

lemma det3_right: "det3 (x + h, y - h) (x + h, y + h) (p, q) = 2 * h * (x + h - p)"
  by (simp add: det3_def algebra_simps)

lemma sep_rect:
  assumes "0 < h" "0 < k"
  shows "list_ex (\<lambda>e. separates e (rect x y h) (rect u v k)) (polygon_edges (rect x y h))
     \<longleftrightarrow> (y + h < v - k \<or> u + k < x - h \<or> v + k < y - h \<or> x + h < u - k)"
  using assms
  apply (simp add: rect_def polygon_edges_def separates_def det3_top det3_left det3_bottom det3_right
      zero_le_mult_iff mult_le_0_iff zero_less_mult_iff mult_less_0_iff)
  apply argo
  done

lemma rect_intersects:
  assumes "0 < h" "0 < k"
  shows "polygon_intersects (rect x y h) (rect u v k)
     \<longleftrightarrow> \<bar>x - u\<bar> \<le> h + k \<and> \<bar>y - v\<bar> \<le> h + k"
  unfolding polygon_intersects_def sep_rect [OF assms] sep_rect [OF assms(2) assms(1)]
  by argo

lemma axis_square_vertices:
  assumes "axis_square s h"
  shows "vertices s = rect (sx s) (sy s) h"
  using assms
  by (simp add: axis_square_def vertices_def square_path_def rect_def padd_def sx_def sy_def
      algebra_simps)

lemma axis_square_check_collision:
  assumes "axis_square s1 h" "axis_square s2 k"
  shows "check_collision s1 s2 \<longleftrightarrow> \<bar>sx s1 - sx s2\<bar> \<le> h + k \<and> \<bar>sy s1 - sy s2\<bar> \<le> h + k"
  using assms rect_intersects [of h k "sx s1" "sy s1" "sx s2" "sy s2"]
  by (simp add: check_collision_def axis_square_vertices [OF assms(1)]
      axis_square_vertices [OF assms(2)] axis_square_def)

lemma axis_square_bounds:
  assumes "axis_square s h"
  shows "bounds s = (sx s - h, sy s - h, sx s + h, sy s + h)"
proof -
  have ne: "centered_path s \<noteq> []" using assms by (simp add: axis_square_def square_path_def)
  have "bounds_of (centered_path s) = (- h, - h, h, h)"
    using assms by (simp add: axis_square_def square_path_def bounds_of_def min_def max_def)
  with bounds_centered [OF ne] show ?thesis
    by (simp add: b0_def b1_def b2_def b3_def)
qed

lemma axis_square_position [simp]:
  "axis_square (s\<lparr>position := p\<rparr>) h = axis_square s h"
  by (simp add: axis_square_def)

lemma sxy_position [simp]: "sx (s\<lparr>position := p\<rparr>) = fst p" "sy (s\<lparr>position := p\<rparr>) = snd p"
  by (simp_all add: sx_def sy_def)

lemma example_square_axis: "0 < a \<Longrightarrow> axis_square (example_square x y a) (a / 2)"
  by (simp add: axis_square_def example_square_path example_square_fields square_path_def)

lemma example_square_xy [simp]: "sx (example_square x y a) = x" "sy (example_square x y a) = y"
  by (simp_all add: sx_def sy_def example_square_fields)

section \<open>Snapping a square to a square\<close>

text \<open>
  C10, as amended. For two squares and each direction the collision snapper returns the
  mover with its facing edge of the bounds on the facing edge of the other (over exact
  arithmetic), with no gap added, and with its coordinate across the direction
  unchanged. Afterwards \<^verbatim>\<open>check_collision\<close> need not be true: for axis-aligned squares
  of half sides \<open>h\<close> and \<open>k\<close> it is false whenever the two squares are apart across the
  direction.
\<close>

theorem snap_squares:
  assumes "shape s1 = Square" and "shape s2 = Square"
    and "centered_path s1 \<noteq> []" and "centered_path s2 \<noteq> []"
  shows "handle_collision H s1 s2 d = Inr (handle_square_square s1 s2 d)
    \<and> square_square_distance (handle_square_square s1 s2 d) s2 d = 0
    \<and> across d (handle_square_square s1 s2 d) = across d s1
    \<and> (axis_square s1 h \<and> axis_square s2 k \<and> h + k < \<bar>across d s1 - across d s2\<bar> \<longrightarrow>
         \<not> check_collision (handle_square_square s1 s2 d) s2)"
proof -
  have 1: "handle_collision H s1 s2 d = Inr (handle_square_square s1 s2 d)"
    using assms by (simp add: handle_collision_def)
  have 2: "square_square_distance (handle_square_square s1 s2 d) s2 d = 0"
    using bounds_position_update [OF assms(3)]
    by (cases d)
       (simp_all add: handle_square_square_def square_square_distance_def b0_def b1_def b2_def b3_def)
  have 3: "across d (handle_square_square s1 s2 d) = across d s1"
    by (cases d) (simp_all add: handle_square_square_def across_def)
  have 4: "axis_square s1 h \<and> axis_square s2 k \<and> h + k < \<bar>across d s1 - across d s2\<bar> \<longrightarrow>
         \<not> check_collision (handle_square_square s1 s2 d) s2"
  proof
    assume a0: "axis_square s1 h \<and> axis_square s2 k \<and> h + k < \<bar>across d s1 - across d s2\<bar>"
    then have a: "axis_square s1 h" "axis_square s2 k" by simp_all
    have a1: "axis_square (handle_square_square s1 s2 d) h"
      using a by (cases d) (simp_all add: handle_square_square_def)
    show "\<not> check_collision (handle_square_square s1 s2 d) s2"
      unfolding axis_square_check_collision [OF a1 a(2)]
      using a0
      by (cases d) (simp_all add: handle_square_square_def across_def)
  qed
  from 1 2 3 4 show ?thesis by blast
qed

text \<open>
  The theorem on two squares of side 0.1 at (0.3, 0.6) and (0.7, 0.3), the first snapped
  to the left.
\<close>

theorem snap_squares_witness:
  "shape (example_square (3 / 10) (3 / 5) (1 / 10)) = Square
   \<and> shape (example_square (7 / 10) (3 / 10) (1 / 10)) = Square
   \<and> centered_path (example_square (3 / 10) (3 / 5) (1 / 10)) \<noteq> []
   \<and> centered_path (example_square (7 / 10) (3 / 10) (1 / 10)) \<noteq> []
   \<and> axis_square (example_square (3 / 10) (3 / 5) (1 / 10)) (1 / 20)
   \<and> axis_square (example_square (7 / 10) (3 / 10) (1 / 10)) (1 / 20)
   \<and> 1 / 20 + 1 / 20 < \<bar>across Left (example_square (3 / 10) (3 / 5) (1 / 10))
        - across Left (example_square (7 / 10) (3 / 10) (1 / 10))\<bar>
   \<and> handle_collision unused_handlers (example_square (3 / 10) (3 / 5) (1 / 10))
       (example_square (7 / 10) (3 / 10) (1 / 10)) Left
      = Inr (handle_square_square (example_square (3 / 10) (3 / 5) (1 / 10))
              (example_square (7 / 10) (3 / 10) (1 / 10)) Left)
   \<and> square_square_distance (handle_square_square (example_square (3 / 10) (3 / 5) (1 / 10))
        (example_square (7 / 10) (3 / 10) (1 / 10)) Left) (example_square (7 / 10) (3 / 10) (1 / 10)) Left = 0
   \<and> \<not> check_collision (handle_square_square (example_square (3 / 10) (3 / 5) (1 / 10))
        (example_square (7 / 10) (3 / 10) (1 / 10)) Left) (example_square (7 / 10) (3 / 10) (1 / 10))"
proof -
  have s: "shape (example_square (3 / 10) (3 / 5) (1 / 10)) = Square"
    "shape (example_square (7 / 10) (3 / 10) (1 / 10)) = Square"
    by (simp_all add: example_square_fields)
  have n: "centered_path (example_square (3 / 10) (3 / 5) (1 / 10)) \<noteq> []"
    "centered_path (example_square (7 / 10) (3 / 10) (1 / 10)) \<noteq> []"
    by (simp_all add: example_square_path)
  have a: "axis_square (example_square (3 / 10) (3 / 5) (1 / 10)) (1 / 20)"
    "axis_square (example_square (7 / 10) (3 / 10) (1 / 10)) (1 / 20)"
    using example_square_axis [of "1 / 10"] by simp_all
  have g: "1 / 20 + 1 / 20 < \<bar>across Left (example_square (3 / 10) (3 / 5) (1 / 10))
        - across Left (example_square (7 / 10) (3 / 10) (1 / 10))\<bar>"
    by (simp add: across_def)
  from snap_squares [OF s n, of unused_handlers Left "1 / 20" "1 / 20"] s n a g
  show ?thesis by simp
qed

text \<open>
  C10, as stated, fails: two squares of side 0.1 at (0.2, 0.5) and (0.8, 0.2) are snapped
  in direction down so that the facing edges are level, and they do not intersect.
\<close>

theorem snap_squares_apart:
  "handle_collision unused_handlers (example_square (2 / 10) (1 / 2) (1 / 10))
       (example_square (8 / 10) (2 / 10) (1 / 10)) Down
      = Inr (handle_square_square (example_square (2 / 10) (1 / 2) (1 / 10))
              (example_square (8 / 10) (2 / 10) (1 / 10)) Down)
   \<and> \<not> check_collision (handle_square_square (example_square (2 / 10) (1 / 2) (1 / 10))
        (example_square (8 / 10) (2 / 10) (1 / 10)) Down) (example_square (8 / 10) (2 / 10) (1 / 10))"
proof -
  have a: "axis_square (example_square (2 / 10) (1 / 2) (1 / 10)) (1 / 20)"
    "axis_square (example_square (8 / 10) (2 / 10) (1 / 10)) (1 / 20)"
    using example_square_axis [of "1 / 10"] by simp_all
  have a1: "axis_square (handle_square_square (example_square (2 / 10) (1 / 2) (1 / 10))
              (example_square (8 / 10) (2 / 10) (1 / 10)) Down) (1 / 20)"
    using a by (simp add: handle_square_square_def)
  have "\<not> check_collision (handle_square_square (example_square (2 / 10) (1 / 2) (1 / 10))
        (example_square (8 / 10) (2 / 10) (1 / 10)) Down) (example_square (8 / 10) (2 / 10) (1 / 10))"
    unfolding axis_square_check_collision [OF a1 a(2)]
    by (simp add: handle_square_square_def)
  then show ?thesis
    by (simp add: handle_collision_def example_square_fields)
qed

section \<open>Resolving the overlap of two squares\<close>

text \<open>
  The resolver of two squares measures the overlap from the mover's own bounds in all
  four directions: for two overlapping axis-aligned squares one application makes
  \<^verbatim>\<open>check_collision\<close> false and a second application returns the mover unchanged.
\<close>

lemma resolve_squares_idempotent:
  assumes "axis_square s1 h" and "axis_square s2 k" and "check_collision s1 s2"
  shows "resolve_overlapping H s1 s2 d = Inr (square_square_overlap s1 s2 d)
    \<and> \<not> check_collision (square_square_overlap s1 s2 d) s2
    \<and> resolve_overlapping H (square_square_overlap s1 s2 d) s2 d = Inr (square_square_overlap s1 s2 d)"
proof -
  have hk: "0 < h" "0 < k" using assms by (simp_all add: axis_square_def)
  have sh: "shape s1 = Square" "shape s2 = Square" using assms by (simp_all add: axis_square_def)
  have ov: "\<bar>sx s1 - sx s2\<bar> \<le> h + k" "\<bar>sy s1 - sy s2\<bar> \<le> h + k"
    using assms axis_square_check_collision [OF assms(1,2)] by simp_all
  have a1: "axis_square (square_square_overlap s1 s2 d) h"
    using assms by (cases d) (simp_all add: square_square_overlap_def)
  have sh1: "shape (square_square_overlap s1 s2 d) = Square"
    using a1 by (simp add: axis_square_def)
  have 1: "resolve_overlapping H s1 s2 d = Inr (square_square_overlap s1 s2 d)"
    using sh by (simp add: resolve_overlapping_def)
  have 2: "\<not> check_collision (square_square_overlap s1 s2 d) s2"
    unfolding axis_square_check_collision [OF a1 assms(2)]
    using ov hk assms(1,2)
    by (cases d)
       (simp_all add: square_square_overlap_def axis_square_bounds b0_def b1_def b2_def b3_def)
  have 3: "square_square_overlap (square_square_overlap s1 s2 d) s2 d = square_square_overlap s1 s2 d"
    using ov hk assms(1,2)
    by (cases d)
       (simp_all add: square_square_overlap_def axis_square_bounds b0_def b1_def b2_def b3_def)
  have 4: "resolve_overlapping H (square_square_overlap s1 s2 d) s2 d
      = Inr (square_square_overlap s1 s2 d)"
    using sh sh1 3 by (simp add: resolve_overlapping_def)
  from 1 2 4 show ?thesis by blast
qed

section \<open>The frame clamp\<close>

text \<open>
  C9. A sprite whose bounds lie within the unit square, and around its own position, is
  left unchanged by the frame clamp. In general the clamp is the clip of the position to
  the lower-left offset and to one minus the upper-right offset: the result is at most
  the upper end, and at least the lower end whenever the two ends are in order; then
  the bounds of the clamped sprite lie within the unit square.
\<close>

theorem frame_clamp_extent:
  "(0 \<le> b0 (bounds s) \<and> 0 \<le> b1 (bounds s) \<and> b2 (bounds s) \<le> 1 \<and> b3 (bounds s) \<le> 1 \<and>
    b0 (bounds s) \<le> sx s \<and> sx s \<le> b2 (bounds s) \<and> b1 (bounds s) \<le> sy s \<and> sy s \<le> b3 (bounds s)
      \<longrightarrow> frame_clamp True s = s)
   \<and> position (frame_clamp True s)
       = clip (position s) (fst (offsets s)) (psub (1, 1) (snd (offsets s)))
   \<and> fst (position (frame_clamp True s)) \<le> 1 - fst (snd (offsets s))
   \<and> snd (position (frame_clamp True s)) \<le> 1 - snd (snd (offsets s))
   \<and> (fst (fst (offsets s)) \<le> 1 - fst (snd (offsets s)) \<and>
      snd (fst (offsets s)) \<le> 1 - snd (snd (offsets s)) \<longrightarrow>
        fst (fst (offsets s)) \<le> fst (position (frame_clamp True s)) \<and>
        snd (fst (offsets s)) \<le> snd (position (frame_clamp True s)))
   \<and> (centered_path s \<noteq> [] \<and>
      b0 (bounds s) \<le> sx s \<and> sx s \<le> b2 (bounds s) \<and> b1 (bounds s) \<le> sy s \<and> sy s \<le> b3 (bounds s) \<and>
      b2 (bounds s) - b0 (bounds s) \<le> 1 \<and> b3 (bounds s) - b1 (bounds s) \<le> 1 \<longrightarrow>
        0 \<le> b0 (bounds (frame_clamp True s)) \<and> 0 \<le> b1 (bounds (frame_clamp True s)) \<and>
        b2 (bounds (frame_clamp True s)) \<le> 1 \<and> b3 (bounds (frame_clamp True s)) \<le> 1)"
proof -
  have P: "frame_clamp True s =
      s\<lparr>position := clip (position s) (fst (offsets s)) (psub (1, 1) (snd (offsets s)))\<rparr>"
    by (simp add: frame_clamp_def padd_def split: prod.splits)
  have 1: "0 \<le> b0 (bounds s) \<and> 0 \<le> b1 (bounds s) \<and> b2 (bounds s) \<le> 1 \<and> b3 (bounds s) \<le> 1 \<and>
    b0 (bounds s) \<le> sx s \<and> sx s \<le> b2 (bounds s) \<and> b1 (bounds s) \<le> sy s \<and> sy s \<le> b3 (bounds s)
      \<longrightarrow> frame_clamp True s = s"
    by (auto simp: frame_clamp_def offsets_def clip_def padd_def psub_def pabs_def sx_def sy_def
        split: prod.splits)
  have 2: "position (frame_clamp True s)
       = clip (position s) (fst (offsets s)) (psub (1, 1) (snd (offsets s)))"
    by (simp add: P)
  have 3: "fst (position (frame_clamp True s)) \<le> 1 - fst (snd (offsets s))"
    "snd (position (frame_clamp True s)) \<le> 1 - snd (snd (offsets s))"
    by (simp_all add: P clip_def psub_def)
  have 4: "fst (fst (offsets s)) \<le> 1 - fst (snd (offsets s)) \<and>
      snd (fst (offsets s)) \<le> 1 - snd (snd (offsets s)) \<longrightarrow>
        fst (fst (offsets s)) \<le> fst (position (frame_clamp True s)) \<and>
        snd (fst (offsets s)) \<le> snd (position (frame_clamp True s))"
    by (simp add: P clip_def psub_def)
  have 5: "centered_path s \<noteq> [] \<and>
      b0 (bounds s) \<le> sx s \<and> sx s \<le> b2 (bounds s) \<and> b1 (bounds s) \<le> sy s \<and> sy s \<le> b3 (bounds s) \<and>
      b2 (bounds s) - b0 (bounds s) \<le> 1 \<and> b3 (bounds s) - b1 (bounds s) \<le> 1 \<longrightarrow>
        0 \<le> b0 (bounds (frame_clamp True s)) \<and> 0 \<le> b1 (bounds (frame_clamp True s)) \<and>
        b2 (bounds (frame_clamp True s)) \<le> 1 \<and> b3 (bounds (frame_clamp True s)) \<le> 1"
  proof
    assume h: "centered_path s \<noteq> [] \<and>
      b0 (bounds s) \<le> sx s \<and> sx s \<le> b2 (bounds s) \<and> b1 (bounds s) \<le> sy s \<and> sy s \<le> b3 (bounds s) \<and>
      b2 (bounds s) - b0 (bounds s) \<le> 1 \<and> b3 (bounds s) - b1 (bounds s) \<le> 1"
    then have ne: "centered_path s \<noteq> []" by simp
    show "0 \<le> b0 (bounds (frame_clamp True s)) \<and> 0 \<le> b1 (bounds (frame_clamp True s)) \<and>
        b2 (bounds (frame_clamp True s)) \<le> 1 \<and> b3 (bounds (frame_clamp True s)) \<le> 1"
      unfolding P
      using bounds_position_update [OF ne,
          of "clip (position s) (fst (offsets s)) (psub (1, 1) (snd (offsets s)))"] h
      by (auto simp: offsets_def clip_def psub_def pabs_def sx_def sy_def b0_def b1_def b2_def b3_def)
  qed
  from 1 2 3 4 5 show ?thesis by blast
qed

lemma example_square_bounds:
  "0 < a \<Longrightarrow> bounds (example_square x y a) = (x - a / 2, y - a / 2, x + a / 2, y + a / 2)"
  using axis_square_bounds [OF example_square_axis, of a x y] by simp

text \<open>The theorem on a square of side 0.1 in the middle of the frame.\<close>

theorem frame_clamp_extent_witness:
  "0 \<le> b0 (bounds (example_square (1 / 2) (1 / 2) (1 / 10)))
   \<and> b2 (bounds (example_square (1 / 2) (1 / 2) (1 / 10))) \<le> 1
   \<and> b0 (bounds (example_square (1 / 2) (1 / 2) (1 / 10))) \<le> sx (example_square (1 / 2) (1 / 2) (1 / 10))
   \<and> centered_path (example_square (1 / 2) (1 / 2) (1 / 10)) \<noteq> []
   \<and> fst (fst (offsets (example_square (1 / 2) (1 / 2) (1 / 10))))
       \<le> 1 - fst (snd (offsets (example_square (1 / 2) (1 / 2) (1 / 10))))
   \<and> frame_clamp True (example_square (1 / 2) (1 / 2) (1 / 10)) = example_square (1 / 2) (1 / 2) (1 / 10)
   \<and> 0 \<le> b0 (bounds (frame_clamp True (example_square (1 / 2) (1 / 2) (1 / 10))))"
  using frame_clamp_extent [of "example_square (1 / 2) (1 / 2) (1 / 10)"]
  by (simp add: example_square_bounds example_square_path offsets_def example_square_fields
      b0_def b1_def b2_def b3_def psub_def pabs_def)

section \<open>The clipping loop returns\<close>

lemma code_values:
  "computeCode x y bnds =
     (if x < b0 bnds then (if y < b1 bnds then 5 else if y > b3 bnds then 9 else 1)
      else if x > b2 bnds then (if y < b1 bnds then 6 else if y > b3 bnds then 10 else 2)
      else (if y < b1 bnds then 4 else if y > b3 bnds then 8 else 0))"
  by (simp add: computeCode_def Let_def)

lemma between:
  fixes a b t :: real
  assumes "0 \<le> t" "t \<le> 1"
  shows "min a b \<le> a + (b - a) * t" "a + (b - a) * t \<le> max a b"
proof -
  have e: "a + (b - a) * t = (1 - t) * a + t * b" by (simp add: algebra_simps)
  have "(1 - t) * min a b \<le> (1 - t) * a" "t * min a b \<le> t * b"
    using assms by (auto intro!: mult_left_mono)
  then have "(1 - t) * min a b + t * min a b \<le> (1 - t) * a + t * b" by linarith
  then show "min a b \<le> a + (b - a) * t" unfolding e by (simp add: algebra_simps)
  have "(1 - t) * a \<le> (1 - t) * max a b" "t * b \<le> t * max a b"
    using assms by (auto intro!: mult_left_mono)
  then have "(1 - t) * a + t * b \<le> (1 - t) * max a b + t * max a b" by linarith
  then show "a + (b - a) * t \<le> max a b" unfolding e by (simp add: algebra_simps)
qed

lemma ratio_unit:
  fixes c u v :: real
  assumes "(u < c \<and> c \<le> v) \<or> (v \<le> c \<and> c < u) \<or> (u \<le> c \<and> c < v) \<or> (v < c \<and> c \<le> u)"
  shows "0 \<le> (c - u) / (v - u)" "(c - u) / (v - u) \<le> 1"
  using assms by (auto simp: field_simps divide_simps)

lemma interp_between:
  fixes a b c u v :: real
  assumes "(u < c \<and> c \<le> v) \<or> (v \<le> c \<and> c < u) \<or> (u \<le> c \<and> c < v) \<or> (v < c \<and> c \<le> u)"
  shows "min a b \<le> a + (b - a) * (c - u) / (v - u)" "a + (b - a) * (c - u) / (v - u) \<le> max a b"
  using between [OF ratio_unit [OF assms], of a b] by simp_all

lemma code_bits:
  "computeCode x y bnds AND 8 \<noteq> 0 \<longleftrightarrow> \<not> y < b1 bnds \<and> y > b3 bnds"
  "computeCode x y bnds AND 4 \<noteq> 0 \<longleftrightarrow> y < b1 bnds"
  "computeCode x y bnds AND 2 \<noteq> 0 \<longleftrightarrow> \<not> x < b0 bnds \<and> x > b2 bnds"
  "computeCode x y bnds AND 1 \<noteq> 0 \<longleftrightarrow> x < b0 bnds"
  "computeCode x y bnds = 0 \<longleftrightarrow> \<not> x < b0 bnds \<and> \<not> x > b2 bnds \<and> \<not> y < b1 bnds \<and> \<not> y > b3 bnds"
  by (simp_all add: code_values)

lemma and_zero_iff:
  assumes "b0 bnds \<le> b2 bnds" "b1 bnds \<le> b3 bnds"
  shows "computeCode x1 y1 bnds AND computeCode x2 y2 bnds = 0 \<longleftrightarrow>
     \<not> (x1 < b0 bnds \<and> x2 < b0 bnds) \<and> \<not> (x1 > b2 bnds \<and> x2 > b2 bnds)
     \<and> \<not> (y1 < b1 bnds \<and> y2 < b1 bnds) \<and> \<not> (y1 > b3 bnds \<and> y2 > b3 bnds)"
  using assms by (simp add: code_values) 

lemma clip_point_cases:
  "clip_point bnds x1 y1 x2 y2 (computeCode x y bnds) =
     (if \<not> y < b1 bnds \<and> y > b3 bnds then (x1 + (x2 - x1) * (b3 bnds - y1) / (y2 - y1), b3 bnds)
      else if y < b1 bnds then (x1 + (x2 - x1) * (b1 bnds - y1) / (y2 - y1), b1 bnds)
      else if \<not> x < b0 bnds \<and> x > b2 bnds then (b2 bnds, y1 + (y2 - y1) * (b2 bnds - x1) / (x2 - x1))
      else if x < b0 bnds then (b0 bnds, y1 + (y2 - y1) * (b0 bnds - x1) / (x2 - x1))
      else (1, 1))"
  unfolding clip_point_def code_bits by simp

lemma clip_first_decreases:
  assumes W: "b0 bnds \<le> b2 bnds" "b1 bnds \<le> b3 bnds"
    and nz: "computeCode x1 y1 bnds \<noteq> 0"
    and az: "computeCode x1 y1 bnds AND computeCode x2 y2 bnds = 0"
  shows "clip_measure bnds (fst (clip_point bnds x1 y1 x2 y2 (computeCode x1 y1 bnds)))
           (snd (clip_point bnds x1 y1 x2 y2 (computeCode x1 y1 bnds))) x2 y2
         < clip_measure bnds x1 y1 x2 y2"
proof -
  from az have sep: "\<not> (x1 < b0 bnds \<and> x2 < b0 bnds)" "\<not> (x1 > b2 bnds \<and> x2 > b2 bnds)"
    "\<not> (y1 < b1 bnds \<and> y2 < b1 bnds)" "\<not> (y1 > b3 bnds \<and> y2 > b3 bnds)"
    unfolding and_zero_iff [OF W] by simp_all
  from nz have out: "x1 < b0 bnds \<or> x1 > b2 bnds \<or> y1 < b1 bnds \<or> y1 > b3 bnds"
    unfolding code_bits by auto
  consider (top) "y1 > b3 bnds" | (bottom) "\<not> y1 > b3 bnds" "y1 < b1 bnds"
    | (right) "\<not> y1 > b3 bnds" "\<not> y1 < b1 bnds" "x1 > b2 bnds"
    | (left) "\<not> y1 > b3 bnds" "\<not> y1 < b1 bnds" "\<not> x1 > b2 bnds" "x1 < b0 bnds"
    using out by blast
  then show ?thesis
  proof cases
    case top
    then have o: "y2 \<le> b3 bnds \<and> b3 bnds < y1" using sep by auto
    have b: "min x1 x2 \<le> x1 + (x2 - x1) * (b3 bnds - y1) / (y2 - y1)"
      "x1 + (x2 - x1) * (b3 bnds - y1) / (y2 - y1) \<le> max x1 x2"
      using interp_between [of y1 "b3 bnds" y2 x1 x2] o by simp_all
    have cp: "clip_point bnds x1 y1 x2 y2 (computeCode x1 y1 bnds)
        = (x1 + (x2 - x1) * (b3 bnds - y1) / (y2 - y1), b3 bnds)"
      unfolding clip_point_cases using top W by simp
    show ?thesis
      unfolding cp using b top o W sep
      by (simp add: clip_measure_def min_def max_def split: if_splits)
  next
    case bottom
    then have o: "y1 < b1 bnds \<and> b1 bnds \<le> y2" using sep by auto
    have b: "min x1 x2 \<le> x1 + (x2 - x1) * (b1 bnds - y1) / (y2 - y1)"
      "x1 + (x2 - x1) * (b1 bnds - y1) / (y2 - y1) \<le> max x1 x2"
      using interp_between [of y1 "b1 bnds" y2 x1 x2] o by simp_all
    have cp: "clip_point bnds x1 y1 x2 y2 (computeCode x1 y1 bnds)
        = (x1 + (x2 - x1) * (b1 bnds - y1) / (y2 - y1), b1 bnds)"
      unfolding clip_point_cases using bottom W by simp
    show ?thesis
      unfolding cp using b bottom o W sep
      by (simp add: clip_measure_def min_def max_def split: if_splits)
  next
    case right
    then have o: "x2 \<le> b2 bnds \<and> b2 bnds < x1" using sep by auto
    have b: "min y1 y2 \<le> y1 + (y2 - y1) * (b2 bnds - x1) / (x2 - x1)"
      "y1 + (y2 - y1) * (b2 bnds - x1) / (x2 - x1) \<le> max y1 y2"
      using interp_between [of x1 "b2 bnds" x2 y1 y2] o by simp_all
    have cp: "clip_point bnds x1 y1 x2 y2 (computeCode x1 y1 bnds)
        = (b2 bnds, y1 + (y2 - y1) * (b2 bnds - x1) / (x2 - x1))"
      unfolding clip_point_cases using right W by simp
    show ?thesis
      unfolding cp using b right o W sep
      by (simp add: clip_measure_def min_def max_def split: if_splits)
  next
    case left
    then have o: "x1 < b0 bnds \<and> b0 bnds \<le> x2" using sep by auto
    have b: "min y1 y2 \<le> y1 + (y2 - y1) * (b0 bnds - x1) / (x2 - x1)"
      "y1 + (y2 - y1) * (b0 bnds - x1) / (x2 - x1) \<le> max y1 y2"
      using interp_between [of x1 "b0 bnds" x2 y1 y2] o by simp_all
    have cp: "clip_point bnds x1 y1 x2 y2 (computeCode x1 y1 bnds)
        = (b0 bnds, y1 + (y2 - y1) * (b0 bnds - x1) / (x2 - x1))"
      unfolding clip_point_cases using left W by simp
    show ?thesis
      unfolding cp using b left o W sep
      by (simp add: clip_measure_def min_def max_def split: if_splits)
  qed
qed

lemma clip_second_decreases:
  assumes W: "b0 bnds \<le> b2 bnds" "b1 bnds \<le> b3 bnds"
    and z: "computeCode x1 y1 bnds = 0"
    and nz: "computeCode x2 y2 bnds \<noteq> 0"
  shows "clip_measure bnds x1 y1 (fst (clip_point bnds x1 y1 x2 y2 (computeCode x2 y2 bnds)))
           (snd (clip_point bnds x1 y1 x2 y2 (computeCode x2 y2 bnds)))
         < clip_measure bnds x1 y1 x2 y2"
proof -
  from z have ins: "\<not> x1 < b0 bnds" "\<not> x1 > b2 bnds" "\<not> y1 < b1 bnds" "\<not> y1 > b3 bnds"
    unfolding code_bits by simp_all
  from nz have out: "x2 < b0 bnds \<or> x2 > b2 bnds \<or> y2 < b1 bnds \<or> y2 > b3 bnds"
    unfolding code_bits by auto
  consider (top) "y2 > b3 bnds" | (bottom) "\<not> y2 > b3 bnds" "y2 < b1 bnds"
    | (right) "\<not> y2 > b3 bnds" "\<not> y2 < b1 bnds" "x2 > b2 bnds"
    | (left) "\<not> y2 > b3 bnds" "\<not> y2 < b1 bnds" "\<not> x2 > b2 bnds" "x2 < b0 bnds"
    using out by blast
  then show ?thesis
  proof cases
    case top
    then have o: "y1 \<le> b3 bnds \<and> b3 bnds < y2" using ins by auto
    have b: "min x1 x2 \<le> x1 + (x2 - x1) * (b3 bnds - y1) / (y2 - y1)"
      "x1 + (x2 - x1) * (b3 bnds - y1) / (y2 - y1) \<le> max x1 x2"
      using interp_between [of y1 "b3 bnds" y2 x1 x2] o by simp_all
    have cp: "clip_point bnds x1 y1 x2 y2 (computeCode x2 y2 bnds)
        = (x1 + (x2 - x1) * (b3 bnds - y1) / (y2 - y1), b3 bnds)"
      unfolding clip_point_cases using top W by simp
    show ?thesis
      unfolding cp using b top o W ins
      by (simp add: clip_measure_def min_def max_def split: if_splits)
  next
    case bottom
    then have o: "y2 < b1 bnds \<and> b1 bnds \<le> y1" using ins by auto
    have b: "min x1 x2 \<le> x1 + (x2 - x1) * (b1 bnds - y1) / (y2 - y1)"
      "x1 + (x2 - x1) * (b1 bnds - y1) / (y2 - y1) \<le> max x1 x2"
      using interp_between [of y1 "b1 bnds" y2 x1 x2] o by simp_all
    have cp: "clip_point bnds x1 y1 x2 y2 (computeCode x2 y2 bnds)
        = (x1 + (x2 - x1) * (b1 bnds - y1) / (y2 - y1), b1 bnds)"
      unfolding clip_point_cases using bottom W by simp
    show ?thesis
      unfolding cp using b bottom o W ins
      by (simp add: clip_measure_def min_def max_def split: if_splits)
  next
    case right
    then have o: "x1 \<le> b2 bnds \<and> b2 bnds < x2" using ins by auto
    have b: "min y1 y2 \<le> y1 + (y2 - y1) * (b2 bnds - x1) / (x2 - x1)"
      "y1 + (y2 - y1) * (b2 bnds - x1) / (x2 - x1) \<le> max y1 y2"
      using interp_between [of x1 "b2 bnds" x2 y1 y2] o by simp_all
    have cp: "clip_point bnds x1 y1 x2 y2 (computeCode x2 y2 bnds)
        = (b2 bnds, y1 + (y2 - y1) * (b2 bnds - x1) / (x2 - x1))"
      unfolding clip_point_cases using right W by simp
    show ?thesis
      unfolding cp using b right o W ins
      by (simp add: clip_measure_def min_def max_def split: if_splits)
  next
    case left
    then have o: "x2 < b0 bnds \<and> b0 bnds \<le> x1" using ins by auto
    have b: "min y1 y2 \<le> y1 + (y2 - y1) * (b0 bnds - x1) / (x2 - x1)"
      "y1 + (y2 - y1) * (b0 bnds - x1) / (x2 - x1) \<le> max y1 y2"
      using interp_between [of x1 "b0 bnds" x2 y1 y2] o by simp_all
    have cp: "clip_point bnds x1 y1 x2 y2 (computeCode x2 y2 bnds)
        = (b0 bnds, y1 + (y2 - y1) * (b0 bnds - x1) / (x2 - x1))"
      unfolding clip_point_cases using left W by simp
    show ?thesis
      unfolding cp using b left o W ins
      by (simp add: clip_measure_def min_def max_def split: if_splits)
  qed
qed

lemma clip_loop_returns:
  assumes W: "b0 bnds \<le> b2 bnds" "b1 bnds \<le> b3 bnds"
  shows "\<exists>r. clip_loop bnds x1 y1 x2 y2 (computeCode x1 y1 bnds) (computeCode x2 y2 bnds) = Some r"
proof (induction "clip_measure bnds x1 y1 x2 y2" arbitrary: x1 y1 x2 y2 rule: less_induct)
  case less
  show ?case
  proof (cases "computeCode x1 y1 bnds = 0 \<and> computeCode x2 y2 bnds = 0")
    case True
    then show ?thesis by (subst clip_loop.simps) auto
  next
    case nin: False
    show ?thesis
    proof (cases "computeCode x1 y1 bnds AND computeCode x2 y2 bnds \<noteq> 0")
      case True
      with nin show ?thesis by (subst clip_loop.simps) auto
    next
      case az: False
      show ?thesis
      proof (cases "computeCode x1 y1 bnds = 0")
        case z: True
        with nin have nz: "computeCode x2 y2 bnds \<noteq> 0" by simp
        from less [OF clip_second_decreases [OF W z nz]]
        obtain r where "clip_loop bnds x1 y1
             (fst (clip_point bnds x1 y1 x2 y2 (computeCode x2 y2 bnds)))
             (snd (clip_point bnds x1 y1 x2 y2 (computeCode x2 y2 bnds)))
             (computeCode x1 y1 bnds)
             (computeCode (fst (clip_point bnds x1 y1 x2 y2 (computeCode x2 y2 bnds)))
                (snd (clip_point bnds x1 y1 x2 y2 (computeCode x2 y2 bnds))) bnds) = Some r"
          by blast
        with z nz show ?thesis by (subst clip_loop.simps) simp
      next
        case nz: False
        from az have a: "computeCode x1 y1 bnds AND computeCode x2 y2 bnds = 0" by simp
        from less [OF clip_first_decreases [OF W nz a]]
        obtain r where "clip_loop bnds
             (fst (clip_point bnds x1 y1 x2 y2 (computeCode x1 y1 bnds)))
             (snd (clip_point bnds x1 y1 x2 y2 (computeCode x1 y1 bnds))) x2 y2
             (computeCode (fst (clip_point bnds x1 y1 x2 y2 (computeCode x1 y1 bnds)))
                (snd (clip_point bnds x1 y1 x2 y2 (computeCode x1 y1 bnds))) bnds)
             (computeCode x2 y2 bnds) = Some r"
          by blast
        with nz a show ?thesis by (subst clip_loop.simps) simp
      qed
    qed
  qed
qed

lemma cohenSutherlandClip_returns:
  assumes "b0 bnds \<le> b2 bnds" "b1 bnds \<le> b3 bnds"
  shows "\<exists>r. cohenSutherlandClip x1 y1 x2 y2 bnds = Some r"
  unfolding cohenSutherlandClip_def by (rule clip_loop_returns [OF assms])

lemma triangle_square_returns:
  assumes "b0 bnds \<le> b2 bnds" "b1 bnds \<le> b3 bnds"
  shows "\<exists>r. triangle_square tvert bnds = Some r"
proof -
  have c: "\<And>x1 y1 x2 y2. cohenSutherlandClip x1 y1 x2 y2 bnds \<noteq> None"
    using cohenSutherlandClip_returns [OF assms] by fastforce
  show ?thesis
    using cohenSutherlandClip_returns [OF assms]
    by (auto simp: triangle_square_def c split: list.splits option.splits bool.splits)
qed

lemma bounds_ordered:
  assumes "centered_path s \<noteq> []"
  shows "b0 (bounds s) \<le> b2 (bounds s)" "b1 (bounds s) \<le> b3 (bounds s)"
  using bounds_of_ordered [of "vertices s"] assms by (simp_all add: bounds_def vertices_def)

lemma speculative_returns: "t \<noteq> None \<Longrightarrow> \<exists>r s'. speculative mv m t = Some (r, s')"
  by (auto simp: speculative_def split: option.splits sum.splits)

lemma detect_collision_returns:
  assumes "centered_path self \<noteq> []" "centered_path other \<noteq> []"
  shows "\<exists>r self'. detect_collision self other motion d = Some (r, self')"
proof -
  have "centered_path (translate self motion) \<noteq> []"
    using assms by (simp add: translate_def)
  then have 1: "\<exists>r. triangle_square (vertices other) (bounds (translate self motion)) = Some r"
    by (intro triangle_square_returns bounds_ordered)
  have 2: "\<And>vs. \<exists>r. triangle_square vs (bounds other) = Some r"
    by (intro triangle_square_returns bounds_ordered assms)
  show ?thesis
    by (cases "shape self"; cases "shape other")
       (auto simp: detect_collision_def 1 2 intro!: speculative_returns split: list.splits)
qed

section \<open>The speculative test\<close>

lemma untranslate_translate: "untranslate (translate s m) m = s"
  by (simp add: untranslate_def translate_def padd_def psub_def)

lemma speculative_cases:
  assumes "speculative (translate s m) m t = Some (r, s')"
  shows "(\<exists>c. r = Inr c \<and> t = Some (Inr c) \<and> s' = s) \<or> (\<exists>e. r = Inl e \<and> t = Some (Inl e) \<and> s' = translate s m)"
  using assms
  by (auto simp: speculative_def untranslate_translate split: option.splits sum.splits)

lemma detect_collision_cases:
  assumes "detect_collision self other motion d = Some (r, self')"
  shows "(\<exists>c. r = Inr c \<and> self' = self) \<or> (\<exists>e. r = Inl e \<and> (self' = self \<or> self' = translate self motion))"
proof (cases "shape self")
  case Circle
  with assms show ?thesis
    by (cases "shape other"; cases r) (auto simp: detect_collision_def)
next
  case Square
  with assms show ?thesis
    by (cases "shape other"; cases r)
       (auto simp: detect_collision_def dest!: speculative_cases)
next
  case Triangle
  with assms show ?thesis
    by (cases "shape other"; cases r)
       (auto simp: detect_collision_def untranslate_translate dest!: speculative_cases
             split: list.splits)
next
  case OtherShape
  with assms show ?thesis
    by (cases r) (auto simp: detect_collision_def)
qed


lemma get_carried_sprite_store:
  "get_carried_sprite st self os motion d = Some (Inr (st', carried)) \<Longrightarrow> st' = st"
proof (induction os arbitrary: st st' carried)
  case Nil
  then show ?case by simp
next
  case (Cons c cs)
  from Cons.prems obtain hit self' where
    d: "detect_collision (st self) (st c) motion d = Some (Inr hit, self')"
    by (auto split: option.splits sum.splits prod.splits)
  then have s: "self' = st self" using detect_collision_cases by blast
  have u: "st(self := self') = st" using s by simp
  from Cons.prems d obtain rest where
    "get_carried_sprite (st(self := self')) self cs motion d = Some (Inr (st', rest))"
    by (auto split: option.splits sum.splits prod.splits)
  with Cons.IH u show ?case by simp
qed

lemma fst_speculative: "map_option fst (speculative mv m t) = t"
  by (cases t) (auto simp: speculative_def split: sum.splits)

lemma three_vertices:
  assumes "3 \<le> length (centered_path s)"
  obtains a b c rest where "centered_path s = a # b # c # rest"
proof -
  from assms obtain a r1 where 1: "centered_path s = a # r1" by (cases "centered_path s") auto
  with assms obtain b r2 where 2: "r1 = b # r2" by (cases r1) auto
  with 1 assms obtain c r3 where 3: "r2 = c # r3" by (cases r2) auto
  from 1 2 3 that show ?thesis by simp
qed

lemma detect_collision_overlap_cases:
  assumes "shape self = Triangle \<longrightarrow> 3 \<le> length (centered_path self)"
  shows "((shape self, shape other) \<noteq> (Triangle, Triangle) \<longrightarrow>
           map_option fst (detect_collision self other motion d) = overlapping (translate self motion) other)
       \<and> ((shape self, shape other) = (Triangle, Triangle) \<longrightarrow>
           map_option fst (detect_collision self other motion d) =
             Some (case TriTri2D (vertices (translate self motion)) (vertices other) True of
                     Inl e \<Rightarrow> Inl e
                   | Inr c \<Rightarrow>
                       (case condition2 d (vertices (translate self motion)) (vertices other)
                               (snd (vertices self ! 1)) (snd (vertices self ! 2))
                               (snd (vertices (translate self motion) ! 1))
                               (snd (vertices (translate self motion) ! 2)) of
                          Inl e \<Rightarrow> Inl e
                        | Inr second \<Rightarrow> Inr (c \<or> second))))"
proof (cases "shape self")
  case Circle
  then show ?thesis
    by (cases "shape other") (simp_all add: detect_collision_def overlapping_def translate_def)
next
  case Square
  then show ?thesis
    by (cases "shape other")
       (simp_all add: detect_collision_def overlapping_def fst_speculative, simp_all add: translate_def)
next
  case Triangle
  with assms have "3 \<le> length (centered_path self)" by simp
  then obtain a b c rest where p: "centered_path self = a # b # c # rest"
    by (rule three_vertices)
  have v: "vertices self = padd a (position self) # padd b (position self) # padd c (position self)
             # map (\<lambda>v. padd v (position self)) rest"
    by (simp add: vertices_def p)
  have vm: "vertices (translate self motion) =
      padd a (position (translate self motion)) # padd b (position (translate self motion))
       # padd c (position (translate self motion))
       # map (\<lambda>v. padd v (position (translate self motion))) rest"
    by (simp add: vertices_def p translate_def)
  show ?thesis
  proof (cases "shape other")
    case Circle
    with Triangle show ?thesis
      by (simp add: detect_collision_def overlapping_def fst_speculative v) (simp add: translate_def)
  next
    case Square
    with Triangle show ?thesis
      by (simp add: detect_collision_def overlapping_def fst_speculative v) (simp add: translate_def)
  next
    case Triangle2: Triangle
    with Triangle show ?thesis
      by (simp add: detect_collision_def fst_speculative v triangle_triangle_test_def)
         (simp add: v vm cong: sum.case_cong)
  next
    case OtherShape
    with Triangle show ?thesis
      by (simp add: detect_collision_def overlapping_def v) (simp add: translate_def)
  qed
next
  case OtherShape
  then show ?thesis
    by (simp add: detect_collision_def overlapping_def translate_def)
qed

text \<open>
  C3, as amended. For every ordered pair of shapes other than triangle against
  triangle, the outcome of \<^verbatim>\<open>detect_collision\<close> is the outcome of the overlap predicate
  of the pair on the mover translated by the motion and the other as it stands. For
  triangle against triangle it is true if and only if \<^verbatim>\<open>TriTri2D\<close> holds on the translated
  mover or the second condition on the heights passed by the mover holds. On sprites
  with non-empty paths the call comes back.
\<close>

theorem detect_collision_is_overlap:
  assumes "shape self = Triangle \<longrightarrow> 3 \<le> length (centered_path self)"
  shows "((shape self, shape other) \<noteq> (Triangle, Triangle) \<longrightarrow>
           map_option fst (detect_collision self other motion d) = overlapping (translate self motion) other)
       \<and> ((shape self, shape other) = (Triangle, Triangle) \<longrightarrow>
           map_option fst (detect_collision self other motion d) =
             Some (case TriTri2D (vertices (translate self motion)) (vertices other) True of
                     Inl e \<Rightarrow> Inl e
                   | Inr c \<Rightarrow>
                       (case condition2 d (vertices (translate self motion)) (vertices other)
                               (snd (vertices self ! 1)) (snd (vertices self ! 2))
                               (snd (vertices (translate self motion) ! 1))
                               (snd (vertices (translate self motion) ! 2)) of
                          Inl e \<Rightarrow> Inl e
                        | Inr second \<Rightarrow> Inr (c \<or> second))))
       \<and> (centered_path self \<noteq> [] \<and> centered_path other \<noteq> [] \<longrightarrow>
           detect_collision self other motion d \<noteq> None)"
  using detect_collision_overlap_cases [OF assms, of other motion d]
    detect_collision_returns [of self other motion d]
  by auto


section \<open>The example circles\<close>

lemma example_circle_path:
  "centered_path (example_circle x y r) =
     [(r, 0), (r * 4 / 5, r * 3 / 5), (r * 3 / 5, r * 4 / 5), (0, r), (- (r * 3 / 5), r * 4 / 5),
      (- (r * 4 / 5), r * 3 / 5), (- r, 0), (- (r * 4 / 5), - (r * 3 / 5)),
      (- (r * 3 / 5), - (r * 4 / 5)), (0, - r), (r * 3 / 5, - (r * 4 / 5)), (r * 4 / 5, - (r * 3 / 5))]"
  by (simp add: example_circle_def Sprite_def geometrical_properties_def reset_centered_path_def
      example_shapes_def Let_def rotate_deg_def scale_pt_def)

lemma example_circle_fields:
  "shape (example_circle x y r) = Circle" "position (example_circle x y r) = (x, y)"
  by (simp_all add: example_circle_def Sprite_def geometrical_properties_def
      reset_centered_path_def Let_def)

lemma example_circle_vertices:
  "vertices (example_circle x y (1 / 20)) =
     [(x + 5 / 100, y), (x + 4 / 100, y + 3 / 100), (x + 3 / 100, y + 4 / 100), (x, y + 5 / 100),
      (x - 3 / 100, y + 4 / 100), (x - 4 / 100, y + 3 / 100), (x - 5 / 100, y), (x - 4 / 100, y - 3 / 100),
      (x - 3 / 100, y - 4 / 100), (x, y - 5 / 100), (x + 3 / 100, y - 4 / 100), (x + 4 / 100, y - 3 / 100)]"
  by (simp add: vertices_def example_circle_path example_circle_fields padd_def)

lemma example_circle_area:
  "polygon_area (vertices (example_circle x y (1 / 20))) = 74 / 10000"
  unfolding example_circle_vertices
  by (simp add: polygon_area_def algebra_simps)

lemma example_circle_prop:
  "propv (example_circle x y (1 / 20)) = Some (sqrt (74 / 10000 / pi))"
proof -
  have "propv (example_circle x y (1 / 20)) =
     Some (sqrt (polygon_area (vertices (example_circle x y (1 / 20))) / pi))"
    by (simp add: example_circle_def Sprite_def geometrical_properties_def
      reset_centered_path_def Let_def vertices_def)
  then show ?thesis by (simp only: example_circle_area)
qed

lemma coincident_empty:
  "line_intersection (3 / 10, 3 / 10) (3 / 10, 3 / 10) (contours (example_circle (3 / 10) (3 / 10) (1 / 20))) = GEmpty"
  unfolding contours_def example_circle_vertices
  by (simp add: polygon_edges_def line_intersection_def seg_seg_def on_segment_def cross2_def dot2_def
      psub_def piece_points_def is_seg_def Let_def)

lemma p1_point:
  "line_intersection (1 / 2, 14 / 25) (1 / 2, 1 / 2) (contours (example_circle (1 / 2) (14 / 25) (1 / 20)))
     = GPoint (1 / 2, 51 / 100)"
  unfolding contours_def example_circle_vertices
  by (simp add: polygon_edges_def line_intersection_def seg_seg_def on_segment_def cross2_def dot2_def
      psub_def piece_points_def is_seg_def Let_def along_def)

lemma p2_point:
  "line_intersection (1 / 2, 14 / 25) (1 / 2, 1 / 2) (contours (example_circle (1 / 2) (1 / 2) (1 / 20)))
     = GPoint (1 / 2, 11 / 20)"
  unfolding contours_def example_circle_vertices
  by (simp add: polygon_edges_def line_intersection_def seg_seg_def on_segment_def cross2_def dot2_def
      psub_def piece_points_def is_seg_def Let_def along_def)

lemma circles_collide:
  "circle_circle (51 / 100, 14 / 25) (1 / 2, 1 / 2) (Some (sqrt (74 / 10000 / pi))) (Some (sqrt (74 / 10000 / pi))) = Inr True"
proof -
  have "pi < 8" using pi_less_4 by simp
  then have "(37 / 10000 :: real) \<le> 4 * (74 / 10000 / pi)"
    using pi_gt_zero by (simp add: field_simps)
  then have "sqrt (37 / 10000) \<le> sqrt (4 * (74 / 10000 / pi))"
    by (simp only: real_sqrt_le_iff)
  also have "sqrt (4 * (74 / 10000 / pi)) = 2 * sqrt (74 / 10000 / pi)"
    by (simp only: real_sqrt_mult real_sqrt_four)
  finally have "sqrt (37 / 10000) \<le> 2 * sqrt (74 / 10000 / pi)" .
  moreover have "pnorm (psub (51 / 100, 14 / 25) (1 / 2, 1 / 2)) = sqrt (37 / 10000)"
    by (simp add: pnorm_def psub_def)
  ultimately show ?thesis by (simp add: circle_circle_def)
qed

section \<open>The nested calls allowed to move are enough\<close>

lemma get_carried_sprite_subset:
  "get_carried_sprite st self os motion d = Some (Inr (st', carried)) \<Longrightarrow> set carried \<subseteq> set os"
proof (induction os arbitrary: st st' carried)
  case Nil
  then show ?case by simp
next
  case (Cons c cs)
  from Cons.prems obtain hit self' rest where
    r: "get_carried_sprite (st(self := self')) self cs motion d = Some (Inr (st', rest))"
    and c: "carried = (if hit then c # rest else rest)"
    by (auto split: option.splits sum.splits prod.splits)
  from Cons.IH [OF r] c show ?case by auto
qed

lemma all_distances_length:
  "all_distances H st self cs d = Inr xs \<Longrightarrow> length xs = length cs"
  by (induction cs arbitrary: xs) (auto split: sum.splits)

lemma first_index_less: "m \<in> set xs \<Longrightarrow> first_index m xs < length xs"
  by (induction xs) auto

lemma argmin_less: "xs \<noteq> [] \<Longrightarrow> argmin xs < length xs"
  unfolding argmin_def by (rule first_index_less) (simp add: Min_in)

lemma get_closest_mem:
  assumes "get_closest H st self carried d = Inr (cs, rest)"
  shows "cs \<in> set carried" "set rest \<subseteq> set carried"
proof -
  from assms obtain xs where xs: "all_distances H st self carried d = Inr xs"
    and ne: "carried \<noteq> []"
    and cs: "cs = carried ! argmin xs"
    and rest: "rest = take (argmin xs) carried @ drop (Suc (argmin xs)) carried"
    by (auto simp: get_closest_def split: sum.splits if_splits)
  have "length xs = length carried" using all_distances_length [OF xs] .
  moreover from this ne have "xs \<noteq> []" by auto
  ultimately have "argmin xs < length carried" using argmin_less [of xs] by simp
  then show "cs \<in> set carried" unfolding cs by simp
  show "set rest \<subseteq> set carried"
    unfolding rest using set_take_subset [of "argmin xs" carried] set_drop_subset [of "Suc (argmin xs)" carried]
    by auto
qed

lemma filter_shorter: "c \<in> set os \<Longrightarrow> length (filter (\<lambda>i. i \<noteq> c) os) < length os"
  by (induction os) (auto simp: less_Suc_eq_le)

lemma secondary_loop_cong:
  assumes "\<And>st c. c \<in> set cs \<Longrightarrow>
      mv1 st c (Some (filter (\<lambda>i. i \<noteq> c) others)) = mv2 st c (Some (filter (\<lambda>i. i \<noteq> c) others))"
  shows "secondary_loop mv1 H st self cs d others = secondary_loop mv2 H st self cs d others"
  using assms
proof (induction cs arbitrary: st)
  case Nil
  then show ?case by simp
next
  case (Cons c cs)
  have e: "\<And>st. mv1 st c (Some (filter (\<lambda>i. i \<noteq> c) others)) = mv2 st c (Some (filter (\<lambda>i. i \<noteq> c) others))"
    using Cons.prems by simp
  have r: "\<And>st. secondary_loop mv1 H st self cs d others = secondary_loop mv2 H st self cs d others"
    using Cons.IH Cons.prems by simp
  show ?case
    by (simp add: e r cong: option.case_cong sum.case_cong prod.case_cong if_cong)
qed

lemma move_step_cong:
  assumes "\<And>st c. c \<in> set others \<Longrightarrow>
      mv1 st c (Some (filter (\<lambda>i. i \<noteq> c) others)) = mv2 st c (Some (filter (\<lambda>i. i \<noteq> c) others))"
  shows "move_step mv1 H st self motion k others = move_step mv2 H st self motion k others"
proof (cases "get_motion_direction motion")
  case (Inl e)
  then show ?thesis by (simp add: move_step_def)
next
  case (Inr d)
  show ?thesis
  proof (cases "get_carried_sprite st self others motion d")
    case None
    with Inr show ?thesis by (simp add: move_step_def)
  next
    case (Some r)
    show ?thesis
    proof (cases r)
      case (Inl e)
      with Inr Some show ?thesis by (simp add: move_step_def)
    next
      case r: (Inr p)
      obtain st1 carried where p: "p = (st1, carried)" by (cases p)
      have sub: "set carried \<subseteq> set others"
        using get_carried_sprite_subset Some r p by blast
      show ?thesis
      proof (cases "get_closest H st1 self carried d")
        case (Inl e)
        with Inr Some r p show ?thesis by (simp add: move_step_def)
      next
        case c: (Inr q)
        obtain cs rest where q: "q = (cs, rest)" by (cases q)
        have m: "cs \<in> set others" "set rest \<subseteq> set others"
          using get_closest_mem [of H st1 self carried d cs rest] c q sub by auto
        have e: "\<And>st. mv1 st cs (Some (filter (\<lambda>i. i \<noteq> cs) others))
                   = mv2 st cs (Some (filter (\<lambda>i. i \<noteq> cs) others))"
          using assms m(1) by simp
        have l: "\<And>st. secondary_loop mv1 H st self rest d others = secondary_loop mv2 H st self rest d others"
          by (rule secondary_loop_cong) (use assms m(2) in auto)
        show ?thesis
          using Inr Some r p c q
          by (simp add: move_step_def e l cong: sum.case_cong option.case_cong prod.case_cong if_cong)
      qed
    qed
  qed
qed

lemma move_fuel_enough:
  "length os < n \<Longrightarrow>
     move_fuel n H st self motion k (Some os) = move_fuel (Suc (length os)) H st self motion k (Some os)"
proof (induction "length os" arbitrary: os n st self rule: less_induct)
  case less
  from less.prems obtain n' where n: "n = Suc n'" and n': "length os \<le> n'"
    by (cases n) auto
  have "move_step (\<lambda>st c os'. move_fuel n' H st c motion k os') H st self motion k os
      = move_step (\<lambda>st c os'. move_fuel (length os) H st c motion k os') H st self motion k os"
  proof (rule move_step_cong)
    fix st c
    assume c: "c \<in> set os"
    then have s: "length (filter (\<lambda>i. i \<noteq> c) os) < length os" by (rule filter_shorter)
    have "move_fuel n' H st c motion k (Some (filter (\<lambda>i. i \<noteq> c) os))
        = move_fuel (Suc (length (filter (\<lambda>i. i \<noteq> c) os))) H st c motion k (Some (filter (\<lambda>i. i \<noteq> c) os))"
      using less.hyps [OF s, of n'] s n' by simp
    moreover have "move_fuel (length os) H st c motion k (Some (filter (\<lambda>i. i \<noteq> c) os))
        = move_fuel (Suc (length (filter (\<lambda>i. i \<noteq> c) os))) H st c motion k (Some (filter (\<lambda>i. i \<noteq> c) os))"
      using less.hyps [OF s, of "length os"] s by simp
    ultimately show "move_fuel n' H st c motion k (Some (filter (\<lambda>i. i \<noteq> c) os))
        = move_fuel (length os) H st c motion k (Some (filter (\<lambda>i. i \<noteq> c) os))"
      by simp
  qed
  then show ?case by (simp add: n)
qed

lemma move_fuel_move:
  assumes "(case others of None \<Rightarrow> 0 | Some os \<Rightarrow> length os) < n"
  shows "move_fuel n H st self motion k others = move H st self motion k others"
proof (cases others)
  case None
  with assms show ?thesis by (cases n) (simp_all add: move_def)
next
  case (Some os)
  with assms show ?thesis using move_fuel_enough [of os n] by (simp add: move_def)
qed

section \<open>Moving toward the closest candidate\<close>

lemma move_toward_general:
  assumes dir: "get_motion_direction motion = Inr d"
    and car: "get_carried_sprite st self others motion d = Some (Inr (st1, carried))"
    and ne: "carried \<noteq> []"
    and clo: "get_closest H st1 self carried d = Inr (cs, rest)"
    and snap: "handle_collision H (st1 self) (st1 cs) d = Inr snapped"
    and neq: "cs \<noteq> self"
    and rel: "get_relative_positions snapped (st1 cs) = Inr positions"
    and toward: "d \<notin> set (map opposite positions)"
  shows "move H st self motion keep_in_frame (Some others) =
     (case secondary_loop (\<lambda>st c os. move H st c motion keep_in_frame os)
             H (st(self := translate snapped motion)) self rest d others of
        None \<Rightarrow> None
      | Some (Inl e) \<Rightarrow> Some (Inl e)
      | Some (Inr st6) \<Rightarrow> Some (Inr (finish keep_in_frame self st6)))"
proof -
  have st1: "st1 = st" using get_carried_sprite_store [OF car] .
  have sub: "set rest \<subseteq> set others"
    using get_closest_mem(2) [OF clo] get_carried_sprite_subset [OF car] by blast
  have l: "secondary_loop (\<lambda>st c os. move_fuel (length others) H st c motion keep_in_frame os)
             H (st(self := translate snapped motion)) self rest d others
         = secondary_loop (\<lambda>st c os. move H st c motion keep_in_frame os)
             H (st(self := translate snapped motion)) self rest d others"
  proof (rule secondary_loop_cong)
    fix st' c
    assume "c \<in> set rest"
    then have "length (filter (\<lambda>i. i \<noteq> c) others) < length others"
      using sub by (intro filter_shorter) auto
    then show "move_fuel (length others) H st' c motion keep_in_frame (Some (filter (\<lambda>i. i \<noteq> c) others))
        = move H st' c motion keep_in_frame (Some (filter (\<lambda>i. i \<noteq> c) others))"
      by (intro move_fuel_move) simp
  qed
  show ?thesis
    using dir car ne clo snap neq rel toward
    by (simp add: move_def move_step_def st1 l)
qed

lemma move_toward_single:
  assumes dir: "get_motion_direction motion = Inr d"
    and car: "get_carried_sprite st self others motion d = Some (Inr (st1, carried))"
    and ne: "carried \<noteq> []"
    and clo: "get_closest H st1 self carried d = Inr (cs, [])"
    and snap: "handle_collision H (st1 self) (st1 cs) d = Inr snapped"
    and neq: "cs \<noteq> self"
    and rel: "get_relative_positions snapped (st1 cs) = Inr positions"
    and toward: "d \<notin> set (map opposite positions)"
  shows "move H st self motion False (Some others) = Some (Inr (st(self := translate snapped motion)))"
  using move_toward_general [OF assms, of False]
  by (simp add: finish_def frame_clamp_def)

text \<open>
  C1, as amended. When candidates exist and the direction of the motion is not the
  opposite of any relative position of the mover to the closest candidate, \<^verbatim>\<open>move\<close>
  snaps the mover to the candidate and then translates it by the motion: the store
  handed to the loop over the remaining candidates holds the mover at the snapped
  position plus the motion. With no remaining candidate and without the frame clamp
  that is the final position of the mover.
\<close>

theorem move_toward_commits_translated:
  assumes "get_motion_direction motion = Inr d"
    and "get_carried_sprite st self others motion d = Some (Inr (st1, carried))"
    and "carried \<noteq> []"
    and "get_closest H st1 self carried d = Inr (cs, rest)"
    and "handle_collision H (st1 self) (st1 cs) d = Inr snapped"
    and "cs \<noteq> self"
    and "get_relative_positions snapped (st1 cs) = Inr positions"
    and "d \<notin> set (map opposite positions)"
  shows "move H st self motion keep_in_frame (Some others) =
     (case secondary_loop (\<lambda>st c os. move H st c motion keep_in_frame os)
             H (st(self := translate snapped motion)) self rest d others of
        None \<Rightarrow> None
      | Some (Inl e) \<Rightarrow> Some (Inl e)
      | Some (Inr st6) \<Rightarrow> Some (Inr (finish keep_in_frame self st6)))
    \<and> position (translate snapped motion) = padd (position snapped) motion
    \<and> (rest = [] \<and> \<not> keep_in_frame \<longrightarrow>
         move H st self motion keep_in_frame (Some others)
           = Some (Inr (st(self := translate snapped motion))))"
proof -
  have 1: "move H st self motion keep_in_frame (Some others) =
     (case secondary_loop (\<lambda>st c os. move H st c motion keep_in_frame os)
             H (st(self := translate snapped motion)) self rest d others of
        None \<Rightarrow> None
      | Some (Inl e) \<Rightarrow> Some (Inl e)
      | Some (Inr st6) \<Rightarrow> Some (Inr (finish keep_in_frame self st6)))"
    by (rule move_toward_general [OF assms])
  have 2: "position (translate snapped motion) = padd (position snapped) motion"
    by (simp add: translate_def)
  have 3: "rest = [] \<and> \<not> keep_in_frame \<longrightarrow>
         move H st self motion keep_in_frame (Some others)
           = Some (Inr (st(self := translate snapped motion)))"
  proof (intro impI)
    assume h: "rest = [] \<and> \<not> keep_in_frame"
    with 1 show "move H st self motion keep_in_frame (Some others)
           = Some (Inr (st(self := translate snapped motion)))"
      by (simp add: finish_def frame_clamp_def)
  qed
  from 1 2 3 show ?thesis by blast
qed

lemma example_circle_xy [simp]: "sx (example_circle x y r) = x" "sy (example_circle x y r) = y"
  by (simp_all add: sx_def sy_def example_circle_fields)

lemma circle_self_update: "(example_circle x y r)\<lparr>position := (x, y)\<rparr> = example_circle x y r"
  using example_circle_fields(2) [of x y r] by (metis sprite.surjective sprite.update_convs(1))

lemma two_sprites_simps [simp]:
  "two_sprites a b 0 = a" "two_sprites a b (Suc n) = b" "(two_sprites a b)(0 := a) = two_sprites a b"
  by (auto simp: two_sprites_def)

text \<open>
  A scene for C1: a circle of radius 0.05 at (0.5, 0.56) right above a circle of the same
  radius at (0.5, 0.5), moved to the right by 0.01.
\<close>

lemma c1_detect:
  "detect_collision (example_circle (1 / 2) (14 / 25) (1 / 20)) (example_circle (1 / 2) (1 / 2) (1 / 20))
     (1 / 100, 0) Right = Some (Inr True, example_circle (1 / 2) (14 / 25) (1 / 20))"
  using circles_collide
  by (simp add: detect_collision_def example_circle_fields example_circle_prop padd_def)

lemma c1_carried:
  "get_carried_sprite (two_sprites (example_circle (1 / 2) (14 / 25) (1 / 20)) (example_circle (1 / 2) (1 / 2) (1 / 20)))
      0 [1] (1 / 100, 0) Right
    = Some (Inr (two_sprites (example_circle (1 / 2) (14 / 25) (1 / 20)) (example_circle (1 / 2) (1 / 2) (1 / 20)), [1]))"
proof -
  have "get_carried_sprite (two_sprites (example_circle (1 / 2) (14 / 25) (1 / 20)) (example_circle (1 / 2) (1 / 2) (1 / 20)))
      0 [Suc 0] (1 / 100, 0) Right
    = Some (Inr (two_sprites (example_circle (1 / 2) (14 / 25) (1 / 20)) (example_circle (1 / 2) (1 / 2) (1 / 20)), [Suc 0]))"
    by (simp add: c1_detect)
  then show ?thesis by simp
qed

lemma c1_distance:
  "get_distance H (example_circle (1 / 2) (14 / 25) (1 / 20)) (example_circle (1 / 2) (1 / 2) (1 / 20)) Right = Inr 0"
  by (simp add: get_distance_def example_circle_fields circle_circle_distance_def p1_point p2_point
      gx_def gy_def)

lemma c1_closest:
  "get_closest H (two_sprites (example_circle (1 / 2) (14 / 25) (1 / 20)) (example_circle (1 / 2) (1 / 2) (1 / 20)))
      0 [1] Right = Inr (1, [])"
proof -
  have "get_closest H (two_sprites (example_circle (1 / 2) (14 / 25) (1 / 20)) (example_circle (1 / 2) (1 / 2) (1 / 20)))
      0 [Suc 0] Right = Inr (Suc 0, [])"
    by (simp add: get_closest_def c1_distance argmin_def)
  then show ?thesis by simp
qed

lemma c1_snap:
  "handle_collision H (example_circle (1 / 2) (14 / 25) (1 / 20)) (example_circle (1 / 2) (1 / 2) (1 / 20)) Right
     = Inr (example_circle (1 / 2) (14 / 25) (1 / 20))"
  by (simp add: handle_collision_def example_circle_fields handle_circle_circle_def p1_point p2_point
      gx_def gy_def circle_self_update)

lemma c1_positions:
  "get_relative_positions (example_circle (1 / 2) (14 / 25) (1 / 20)) (example_circle (1 / 2) (1 / 2) (1 / 20))
     = Inr [Up]"
  by (simp add: get_relative_positions_def example_circle_fields circle_circle_position_def dirs_def)

text \<open>
  C1, as stated, fails: in that scene the snapper leaves the mover where it is, the
  mover is above the candidate and moves right, and \<^verbatim>\<open>move\<close> ends with the mover
  translated by the motion, not at the snapped position.
\<close>

theorem move_toward_translates_example:
  "handle_collision unused_handlers (example_circle (1 / 2) (14 / 25) (1 / 20))
       (example_circle (1 / 2) (1 / 2) (1 / 20)) Right
     = Inr (example_circle (1 / 2) (14 / 25) (1 / 20))
   \<and> get_relative_positions (example_circle (1 / 2) (14 / 25) (1 / 20))
        (example_circle (1 / 2) (1 / 2) (1 / 20)) = Inr [Up]
   \<and> Right \<notin> set (map opposite [Up])
   \<and> move unused_handlers
        (two_sprites (example_circle (1 / 2) (14 / 25) (1 / 20)) (example_circle (1 / 2) (1 / 2) (1 / 20)))
        0 (1 / 100, 0) False (Some [1])
      = Some (Inr ((two_sprites (example_circle (1 / 2) (14 / 25) (1 / 20))
                      (example_circle (1 / 2) (1 / 2) (1 / 20)))
                   (0 := translate (example_circle (1 / 2) (14 / 25) (1 / 20)) (1 / 100, 0))))
   \<and> position (translate (example_circle (1 / 2) (14 / 25) (1 / 20)) (1 / 100, 0)) = (51 / 100, 14 / 25)
   \<and> position (example_circle (1 / 2) (14 / 25) (1 / 20)) = (1 / 2, 14 / 25)
   \<and> position (translate (example_circle (1 / 2) (14 / 25) (1 / 20)) (1 / 100, 0))
       \<noteq> position (example_circle (1 / 2) (14 / 25) (1 / 20))"
proof -
  have d: "get_motion_direction (1 / 100, 0) = Inr Right"
    by (simp add: get_motion_direction_def)
  have t: "Right \<notin> set (map opposite [Up])" by (simp add: opposite_def)
  have s: "handle_collision unused_handlers
      (two_sprites (example_circle (1 / 2) (14 / 25) (1 / 20)) (example_circle (1 / 2) (1 / 2) (1 / 20)) 0)
      (two_sprites (example_circle (1 / 2) (14 / 25) (1 / 20)) (example_circle (1 / 2) (1 / 2) (1 / 20)) 1)
      Right = Inr (example_circle (1 / 2) (14 / 25) (1 / 20))"
    by (simp add: c1_snap)
  have r: "get_relative_positions (example_circle (1 / 2) (14 / 25) (1 / 20))
      (two_sprites (example_circle (1 / 2) (14 / 25) (1 / 20)) (example_circle (1 / 2) (1 / 2) (1 / 20)) 1)
      = Inr [Up]"
    by (simp add: c1_positions)
  have "move unused_handlers
        (two_sprites (example_circle (1 / 2) (14 / 25) (1 / 20)) (example_circle (1 / 2) (1 / 2) (1 / 20)))
        0 (1 / 100, 0) False (Some [1])
      = Some (Inr ((two_sprites (example_circle (1 / 2) (14 / 25) (1 / 20))
                      (example_circle (1 / 2) (1 / 2) (1 / 20)))
                   (0 := translate (example_circle (1 / 2) (14 / 25) (1 / 20)) (1 / 100, 0))))"
    by (rule move_toward_single [OF d c1_carried _ c1_closest s _ r t]) simp_all
  then show ?thesis
    using c1_snap c1_positions t by (simp add: translate_def example_circle_fields padd_def)
qed

text \<open>The theorem in the scene of the two circles: one candidate, no frame clamp.\<close>

theorem move_toward_commits_translated_witness:
  "get_motion_direction (1 / 100, 0) = Inr Right
   \<and> get_carried_sprite
        (two_sprites (example_circle (1 / 2) (14 / 25) (1 / 20)) (example_circle (1 / 2) (1 / 2) (1 / 20)))
        0 [1] (1 / 100, 0) Right
      = Some (Inr (two_sprites (example_circle (1 / 2) (14 / 25) (1 / 20))
                     (example_circle (1 / 2) (1 / 2) (1 / 20)), [1]))
   \<and> get_closest unused_handlers
        (two_sprites (example_circle (1 / 2) (14 / 25) (1 / 20)) (example_circle (1 / 2) (1 / 2) (1 / 20)))
        0 [1] Right = Inr (1, [])
   \<and> handle_collision unused_handlers (example_circle (1 / 2) (14 / 25) (1 / 20))
        (example_circle (1 / 2) (1 / 2) (1 / 20)) Right
      = Inr (example_circle (1 / 2) (14 / 25) (1 / 20))
   \<and> get_relative_positions (example_circle (1 / 2) (14 / 25) (1 / 20))
        (example_circle (1 / 2) (1 / 2) (1 / 20)) = Inr [Up]
   \<and> Right \<notin> set (map opposite [Up])
   \<and> move unused_handlers
        (two_sprites (example_circle (1 / 2) (14 / 25) (1 / 20)) (example_circle (1 / 2) (1 / 2) (1 / 20)))
        0 (1 / 100, 0) False (Some [1])
      = Some (Inr ((two_sprites (example_circle (1 / 2) (14 / 25) (1 / 20))
                      (example_circle (1 / 2) (1 / 2) (1 / 20)))
                   (0 := translate (example_circle (1 / 2) (14 / 25) (1 / 20)) (1 / 100, 0))))"
proof -
  have d: "get_motion_direction (1 / 100, 0) = Inr Right"
    by (simp add: get_motion_direction_def)
  have t: "Right \<notin> set (map opposite [Up])" by (simp add: opposite_def)
  have s: "handle_collision unused_handlers
      (two_sprites (example_circle (1 / 2) (14 / 25) (1 / 20)) (example_circle (1 / 2) (1 / 2) (1 / 20)) 0)
      (two_sprites (example_circle (1 / 2) (14 / 25) (1 / 20)) (example_circle (1 / 2) (1 / 2) (1 / 20)) 1)
      Right = Inr (example_circle (1 / 2) (14 / 25) (1 / 20))"
    by (simp add: c1_snap)
  have r: "get_relative_positions (example_circle (1 / 2) (14 / 25) (1 / 20))
      (two_sprites (example_circle (1 / 2) (14 / 25) (1 / 20)) (example_circle (1 / 2) (1 / 2) (1 / 20)) 1)
      = Inr [Up]"
    by (simp add: c1_positions)
  have n: "[1::nat] \<noteq> []" "(1::nat) \<noteq> 0" by simp_all
  from move_toward_commits_translated [OF d c1_carried n(1) c1_closest s n(2) r t, of False]
  have "move unused_handlers
        (two_sprites (example_circle (1 / 2) (14 / 25) (1 / 20)) (example_circle (1 / 2) (1 / 2) (1 / 20)))
        0 (1 / 100, 0) False (Some [1])
      = Some (Inr ((two_sprites (example_circle (1 / 2) (14 / 25) (1 / 20))
                      (example_circle (1 / 2) (1 / 2) (1 / 20)))
                   (0 := translate (example_circle (1 / 2) (14 / 25) (1 / 20)) (1 / 100, 0))))"
    by (simp add: finish_def frame_clamp_def)
  with d c1_carried c1_closest c1_snap c1_positions t show ?thesis by simp
qed

section \<open>Scenario B\<close>

text \<open>
  C8. Two coincident circles of radius 0.05 at (0.3, 0.3): the segment between the two
  centers is a single point, it meets neither contour, and the snapper raises when it
  reads the coordinate of the empty intersection. The mover is not placed anywhere.
\<close>

theorem snap_coincident_circles_raises:
  "handle_collision unused_handlers (example_circle (3 / 10) (3 / 10) (1 / 20))
     (example_circle (3 / 10) (3 / 10) (1 / 20)) Up = Inl AttributeError"
  by (simp add: handle_collision_def example_circle_fields handle_circle_circle_def coincident_empty
      gx_def gy_def)

section \<open>The example triangles\<close>

lemma example_triangle_path:
  "centered_path (example_triangle x y k) = [(0, k * 2 / 3), (- k, - (k / 3)), (k, - (k / 3))]"
  by (simp add: example_triangle_def Sprite_def geometrical_properties_def reset_centered_path_def
      example_shapes_def Let_def rotate_deg_def scale_pt_def)

lemma example_triangle_fields:
  "shape (example_triangle x y k) = Triangle" "position (example_triangle x y k) = (x, y)"
  "propv (example_triangle x y k) = None"
  by (simp_all add: example_triangle_def Sprite_def geometrical_properties_def
      reset_centered_path_def Let_def)

lemma example_triangle_vertices:
  "vertices ((example_triangle x y (3 / 10))\<lparr>position := (u, v)\<rparr>) =
     [(u, v + 2 / 10), (u - 3 / 10, v - 1 / 10), (u + 3 / 10, v - 1 / 10)]"
  by (simp add: vertices_def example_triangle_path padd_def)

lemma example_triangle_vertices0:
  "vertices (example_triangle x y (3 / 10)) =
     [(x, y + 2 / 10), (x - 3 / 10, y - 1 / 10), (x + 3 / 10, y - 1 / 10)]"
  by (simp add: vertices_def example_triangle_path padd_def example_triangle_fields)

text \<open>
  C3, as stated, fails for triangle against triangle: the mover at (0.3, 0.5), moved
  down by 0.02, passes with its base the height of the lower left vertex of the other
  triangle at (0.895, 0.49), its lower right vertex 0.005 to the right of that vertex.
  The two triangles do not overlap after the translation, and the test reports a
  collision.
\<close>

theorem detect_triangles_without_overlap:
  "detect_collision (example_triangle (3 / 10) (1 / 2) (3 / 10)) (example_triangle (179 / 200) (49 / 100) (3 / 10))
      (0, - (1 / 50)) Down
     = Some (Inr True, example_triangle (3 / 10) (1 / 2) (3 / 10))
   \<and> overlapping (translate (example_triangle (3 / 10) (1 / 2) (3 / 10)) (0, - (1 / 50)))
        (example_triangle (179 / 200) (49 / 100) (3 / 10)) = Some (Inr False)"
proof -
  have t: "translate (example_triangle (3 / 10) (1 / 2) (3 / 10)) (0, - (1 / 50))
     = (example_triangle (3 / 10) (1 / 2) (3 / 10))\<lparr>position := (3 / 10, 12 / 25)\<rparr>"
    by (simp add: translate_def example_triangle_fields padd_def)
  have tt: "TriTri2D (vertices ((example_triangle (3 / 10) (1 / 2) (3 / 10))\<lparr>position := (3 / 10, 12 / 25)\<rparr>))
      (vertices (example_triangle (179 / 200) (49 / 100) (3 / 10))) True = Inr False"
    unfolding example_triangle_vertices example_triangle_vertices0
    by (simp add: TriTri2D_def CheckTriWinding_def tri_rows_def det3_def rolled_edges_def all_outside_def
        chkEdge_def)
  have c2: "condition2 Down (vertices ((example_triangle (3 / 10) (1 / 2) (3 / 10))\<lparr>position := (3 / 10, 12 / 25)\<rparr>))
      (vertices (example_triangle (179 / 200) (49 / 100) (3 / 10))) (2 / 5) (2 / 5) (19 / 50) (19 / 50)
      = Inr True"
    unfolding example_triangle_vertices example_triangle_vertices0
    by (simp add: condition2_def)
  have 1: "detect_collision (example_triangle (3 / 10) (1 / 2) (3 / 10)) (example_triangle (179 / 200) (49 / 100) (3 / 10))
      (0, - (1 / 50)) Down
     = Some (Inr True, example_triangle (3 / 10) (1 / 2) (3 / 10))"
    using tt c2
    by (simp add: detect_collision_def example_triangle_fields example_triangle_vertices0 t
        speculative_def triangle_triangle_test_def example_triangle_vertices)
       (simp add: t [symmetric] untranslate_translate)
  have 2: "overlapping (translate (example_triangle (3 / 10) (1 / 2) (3 / 10)) (0, - (1 / 50)))
        (example_triangle (179 / 200) (49 / 100) (3 / 10)) = Some (Inr False)"
    using tt by (simp add: overlapping_def t example_triangle_fields)
  from 1 2 show ?thesis by simp
qed



text \<open>The theorem on two squares and on two triangles.\<close>

theorem detect_collision_is_overlap_witness:
  "3 \<le> length (centered_path (example_triangle (3 / 10) (1 / 2) (3 / 10)))
   \<and> centered_path (example_triangle (3 / 10) (1 / 2) (3 / 10)) \<noteq> []
   \<and> centered_path (example_triangle (7 / 10) (49 / 100) (3 / 10)) \<noteq> []
   \<and> detect_collision (example_triangle (3 / 10) (1 / 2) (3 / 10))
        (example_triangle (7 / 10) (49 / 100) (3 / 10)) (0, - (1 / 50)) Down \<noteq> None
   \<and> (shape (example_square (1 / 2) (1 / 2) (1 / 10)), shape (example_square (3 / 5) (1 / 2) (1 / 10)))
        \<noteq> (Triangle, Triangle)
   \<and> map_option fst (detect_collision (example_square (1 / 2) (1 / 2) (1 / 10))
        (example_square (3 / 5) (1 / 2) (1 / 10)) (1 / 100, 0) Right)
      = overlapping (translate (example_square (1 / 2) (1 / 2) (1 / 10)) (1 / 100, 0))
          (example_square (3 / 5) (1 / 2) (1 / 10))
   \<and> (shape (example_triangle (3 / 10) (1 / 2) (3 / 10)), shape (example_triangle (7 / 10) (49 / 100) (3 / 10)))
        = (Triangle, Triangle)
   \<and> map_option fst (detect_collision (example_triangle (3 / 10) (1 / 2) (3 / 10))
        (example_triangle (7 / 10) (49 / 100) (3 / 10)) (0, - (1 / 50)) Down)
      = Some (case TriTri2D (vertices (translate (example_triangle (3 / 10) (1 / 2) (3 / 10)) (0, - (1 / 50))))
                     (vertices (example_triangle (7 / 10) (49 / 100) (3 / 10))) True of
                Inl e \<Rightarrow> Inl e
              | Inr c \<Rightarrow>
                  (case condition2 Down
                      (vertices (translate (example_triangle (3 / 10) (1 / 2) (3 / 10)) (0, - (1 / 50))))
                      (vertices (example_triangle (7 / 10) (49 / 100) (3 / 10)))
                      (snd (vertices (example_triangle (3 / 10) (1 / 2) (3 / 10)) ! 1))
                      (snd (vertices (example_triangle (3 / 10) (1 / 2) (3 / 10)) ! 2))
                      (snd (vertices (translate (example_triangle (3 / 10) (1 / 2) (3 / 10)) (0, - (1 / 50))) ! 1))
                      (snd (vertices (translate (example_triangle (3 / 10) (1 / 2) (3 / 10)) (0, - (1 / 50))) ! 2)) of
                     Inl e \<Rightarrow> Inl e
                   | Inr second \<Rightarrow> Inr (c \<or> second)))"
proof -
  have l: "shape (example_triangle (3 / 10) (1 / 2) (3 / 10)) = Triangle
      \<longrightarrow> 3 \<le> length (centered_path (example_triangle (3 / 10) (1 / 2) (3 / 10)))"
    by (simp add: example_triangle_path)
  have q: "shape (example_square (1 / 2) (1 / 2) (1 / 10)) = Triangle
      \<longrightarrow> 3 \<le> length (centered_path (example_square (1 / 2) (1 / 2) (1 / 10)))"
    by (simp add: example_square_fields)
  from detect_collision_is_overlap [OF q, of "example_square (3 / 5) (1 / 2) (1 / 10)" "(1 / 100, 0)" Right]
    detect_collision_is_overlap [OF l, of "example_triangle (7 / 10) (49 / 100) (3 / 10)" "(0, - (1 / 50))" Down]
    l
  show ?thesis
    by (simp add: example_square_fields example_triangle_fields example_triangle_path)
qed

section \<open>A square resolved against a circle\<close>

lemma example_circle_bounds:
  "bounds (example_circle x y (1 / 20)) = (x - 1 / 20, y - 1 / 20, x + 1 / 20, y + 1 / 20)"
  unfolding bounds_def example_circle_vertices
  by (simp add: bounds_of_def min_def max_def)

lemma square_circle_up_middle:
  assumes a: "axis_square s (1 / 20)" and x: "sx s = 1 / 2"
  shows "resolve_overlapping H s (example_circle (1 / 2) (1 / 2) (1 / 20)) Up
     = Inr (move_y s (- (5001 / 100000 + the (propv (example_circle (1 / 2) (1 / 2) (1 / 20))))))"
proof -
  have sh: "shape s = Square" using a by (simp add: axis_square_def)
  have "\<exists>r. propv (example_circle (1 / 2) (1 / 2) (1 / 20)) = Some r \<and> 0 \<le> r"
    by (simp add: example_circle_prop)
  then obtain r where r: "propv (example_circle (1 / 2) (1 / 2) (1 / 20)) = Some r" "0 \<le> r"
    by blast
  show ?thesis
    using r(2)
    by (simp add: resolve_overlapping_def sh example_circle_fields square_circle_overlap_def
        axis_square_vertices [OF a] rect_def x r(1) example_circle_bounds
        b0_def b1_def b2_def b3_def Let_def)
qed

lemma move_y_axis [simp]: "axis_square (move_y s dy) h = axis_square s h"
  by (simp add: move_y_def)

lemma move_y_xy [simp]: "sx (move_y s dy) = sx s" "sy (move_y s dy) = sy s + dy"
  by (simp_all add: move_y_def)

text \<open>
  C6. The claim: for every pair of overlapping bodies and every direction, one
  application of the overlap resolver makes \<^verbatim>\<open>check_collision\<close> false and a second
  application with the same arguments changes nothing. The code breaks it for a square
  against a circle in direction up: the branch for a circle centered within the
  horizontal extent of the square measures from the upper edge of the circle, where the
  branches of the other three directions measure from the bounds of the mover. A square
  of side 0.1 at (0.5, 0.42) overlaps a circle of radius 0.05 at (0.5, 0.5) from below; the
  resolver moves it down by the upper extent of the circle, its radius and 1e-5, and the
  second application moves it down by as much once more.
\<close>

theorem resolve_square_circle_moves_again:
  "check_collision (example_square (1 / 2) (21 / 50) (1 / 10)) (example_circle (1 / 2) (1 / 2) (1 / 20))
   \<and> resolve_overlapping unused_handlers (example_square (1 / 2) (21 / 50) (1 / 10))
        (example_circle (1 / 2) (1 / 2) (1 / 20)) Up
      = Inr (move_y (example_square (1 / 2) (21 / 50) (1 / 10))
               (- (5001 / 100000 + the (propv (example_circle (1 / 2) (1 / 2) (1 / 20))))))
   \<and> resolve_overlapping unused_handlers
        (move_y (example_square (1 / 2) (21 / 50) (1 / 10))
               (- (5001 / 100000 + the (propv (example_circle (1 / 2) (1 / 2) (1 / 20))))))
        (example_circle (1 / 2) (1 / 2) (1 / 20)) Up
      = Inr (move_y (move_y (example_square (1 / 2) (21 / 50) (1 / 10))
               (- (5001 / 100000 + the (propv (example_circle (1 / 2) (1 / 2) (1 / 20))))))
               (- (5001 / 100000 + the (propv (example_circle (1 / 2) (1 / 2) (1 / 20))))))
   \<and> sy (move_y (example_square (1 / 2) (21 / 50) (1 / 10))
               (- (5001 / 100000 + the (propv (example_circle (1 / 2) (1 / 2) (1 / 20))))))
       - sy (move_y (move_y (example_square (1 / 2) (21 / 50) (1 / 10))
               (- (5001 / 100000 + the (propv (example_circle (1 / 2) (1 / 2) (1 / 20))))))
               (- (5001 / 100000 + the (propv (example_circle (1 / 2) (1 / 2) (1 / 20))))))
       \<ge> 5001 / 100000"
proof -
  have a: "axis_square (example_square (1 / 2) (21 / 50) (1 / 10)) (1 / 20)"
    using example_square_axis [of "1 / 10"] by simp
  have c: "check_collision (example_square (1 / 2) (21 / 50) (1 / 10)) (example_circle (1 / 2) (1 / 2) (1 / 20))"
    unfolding check_collision_def axis_square_vertices [OF a] example_circle_vertices
    by (simp add: rect_def polygon_intersects_def polygon_edges_def separates_def det3_def)
  have 1: "resolve_overlapping unused_handlers (example_square (1 / 2) (21 / 50) (1 / 10))
        (example_circle (1 / 2) (1 / 2) (1 / 20)) Up
      = Inr (move_y (example_square (1 / 2) (21 / 50) (1 / 10))
               (- (5001 / 100000 + the (propv (example_circle (1 / 2) (1 / 2) (1 / 20))))))"
    by (rule square_circle_up_middle [OF a]) simp
  have 2: "resolve_overlapping unused_handlers
        (move_y (example_square (1 / 2) (21 / 50) (1 / 10))
               (- (5001 / 100000 + the (propv (example_circle (1 / 2) (1 / 2) (1 / 20))))))
        (example_circle (1 / 2) (1 / 2) (1 / 20)) Up
      = Inr (move_y (move_y (example_square (1 / 2) (21 / 50) (1 / 10))
               (- (5001 / 100000 + the (propv (example_circle (1 / 2) (1 / 2) (1 / 20))))))
               (- (5001 / 100000 + the (propv (example_circle (1 / 2) (1 / 2) (1 / 20))))))"
    by (rule square_circle_up_middle) (simp_all add: a)
  have 3: "0 \<le> the (propv (example_circle (1 / 2) (1 / 2) (1 / 20)))"
    by (simp add: example_circle_prop)
  from c 1 2 3 show ?thesis by simp
qed

end
